theory Spec2Isabelle
  imports Main "HOL-Library.Word"
begin

section \<open>Strings\<close>

text \<open>
  Python strings are modelled as lists of \<open>char\<close>, read as code points below 256.
  \<open>lower\<close> is \<open>str.lower()\<close> on that range: the upper-case letters are A to Z
  (65 to 90) and the Latin-1 capitals 192 to 222 without the multiplication sign 215; the
  lower-case letter is 32 above, which is bit 5 of the code point.
\<close>

definition lower_char :: "char \<Rightarrow> char" where
  "lower_char c =
     (let n = (of_char c :: nat)
      in if (65 \<le> n \<and> n \<le> 90) \<or> (192 \<le> n \<and> n \<le> 222 \<and> n \<noteq> 215)
         then (case c of Char b0 b1 b2 b3 b4 b5 b6 b7 \<Rightarrow> Char b0 b1 b2 b3 b4 True b6 b7)
         else c)"

definition lower :: "string \<Rightarrow> string" where
  "lower s = map lower_char s"

definition startswith :: "string \<Rightarrow> string \<Rightarrow> bool" where
  "startswith s p = (take (length p) s = p)"

fun join :: "string \<Rightarrow> string list \<Rightarrow> string" where
  "join sep [] = []"
| "join sep [x] = x"
| "join sep (x # y # ys) = x @ sep @ join sep (y # ys)"

text \<open>Decimal rendering of an integer, as \<open>"%s" % n\<close> gives it.\<close>

fun str_nat :: "nat \<Rightarrow> string" where
  "str_nat n =
     (if n < 10 then [''0123456789'' ! n]
      else str_nat (n div 10) @ [''0123456789'' ! (n mod 10)])"

declare str_nat.simps [simp del]

definition str_int :: "int \<Rightarrow> string" where
  "str_int i = (if i < 0 then CHR ''-'' # str_nat (nat (- i)) else str_nat (nat i))"

section \<open>Environment, errors and process state\<close>

datatype platform = Linux | OSX | Windows | OtherOS

definition IS_OSX :: "platform \<Rightarrow> bool" where
  "IS_OSX p = (p = OSX)"

definition IS_LINUX :: "platform \<Rightarrow> bool" where
  "IS_LINUX p = (p = Linux)"

definition IS_WINDOWS :: "platform \<Rightarrow> bool" where
  "IS_WINDOWS p = (p = Windows)"

text \<open>The three backend modules of \<open>numba.np.ufunc\<close>.\<close>

datatype lib = tbbpool | omppool | workqueue

datatype error =
    ValueError string
  | ImportError string
  | TypeError string
  | RuntimeError string
  | KeyError string
  | NameError string
  | BackendError string

text \<open>
  What the module does to the world outside its own globals, in the order it happens:
  loading the TBB runtime with \<open>CDLL\<close>, \<open>warnings.warn\<close>, an \<open>import\<close> statement
  of a backend module (whether or not it succeeds), \<open>ll.add_symbol\<close>, and the calls into
  the loaded backend. The arguments of the backend calls are what ctypes passes for a
  \<open>c_int\<close> or \<open>c_uint\<close> parameter: the Python integer reduced to 32 bits, without an
  overflow check.
\<close>

datatype event =
    CDLL string
  | Warn string
  | Import lib
  | Add_symbol string lib
  | Launch_threads lib "32 word"
  | Launch_raised lib "32 word"
  | Set_num_threads lib "32 word"
  | Set_parallel_chunksize lib "32 word"

text \<open>
  The environment of one call: the configuration, the platform and how the outside world
  answers. \<open>tbb_runtime\<close> is \<open>Inl msg\<close> when \<open>CDLL\<close> raises \<open>OSError(msg)\<close> and
  \<open>Inr v\<close> when \<open>TBB_runtime_interface_version()\<close> returns the \<open>c_int\<close> \<open>v\<close>.
\<close>

record env =
  THREADING_LAYER :: string
  NUMBA_NUM_THREADS :: int
  platform :: platform
  tbb_runtime :: "string + 32 word"
  importable :: "lib \<Rightarrow> bool"
  launch_raises :: "lib \<Rightarrow> bool"
  backend_num_threads :: "32 word"
  backend_thread_id :: "32 word"

text \<open>
  The module globals. \<open>num_threads_funcs\<close> stands for \<open>_set_num_threads\<close>,
  \<open>_get_num_threads\<close> and \<open>_get_thread_id\<close>, which \<open>_load_num_threads_funcs\<close> binds
  together to one backend; \<open>parfor_funcs\<close> for \<open>_set_parallel_chunksize\<close>,
  \<open>_get_parallel_chunksize\<close> and \<open>_get_sched_size\<close>, bound by \<open>parfor_load_late\<close>.
  \<open>parfor_load_late_defined\<close> says whether the module body has reached the
  \<open>def parfor_load_late\<close> of line 656: the body calls \<open>_launch_threads()\<close> itself at
  line 653, when \<open>NUMBA_DYLD_WORKAROUND\<close> is set, and at that point the name is not bound
  yet.
\<close>

record pstate =
  is_initialized :: bool
  threading_layer_name :: "string option"
  num_threads_funcs :: "lib option"
  parfor_funcs :: "lib option"
  parfor_load_late_defined :: bool
  events :: "event list"

text \<open>The module has been imported and nothing has called \<open>_launch_threads\<close> yet.\<close>

definition initial_state :: pstate where
  "initial_state =
     \<lparr>is_initialized = False, threading_layer_name = None, num_threads_funcs = None,
      parfor_funcs = None, parfor_load_late_defined = True, events = []\<rparr>"

text \<open>
  The module body has run up to line 653, where it calls \<open>_launch_threads()\<close> under
  \<open>NUMBA_DYLD_WORKAROUND\<close>.
\<close>

definition import_time_state :: pstate where
  "import_time_state = initial_state\<lparr>parfor_load_late_defined := False\<rparr>"

text \<open>
  The module imported again after an import that failed: the body runs again, so the globals
  are the ones it assigns (lines 312 and 315 reset the flag and the layer name); what the
  earlier attempt did to the process stays.
\<close>

definition reimport :: "pstate \<Rightarrow> pstate" where
  "reimport s = import_time_state\<lparr>events := events s\<rparr>"

definition add_events :: "pstate \<Rightarrow> event list \<Rightarrow> pstate" where
  "add_events s evs = s\<lparr>events := events s @ evs\<rparr>"

definition get_thread_count :: "env \<Rightarrow> error + int" where
  "get_thread_count e =
     (let t = NUMBA_NUM_THREADS e
      in if t < 1 then Inl (ValueError ''Number of threads specified must be > 0.'')
         else Inr t)"

definition threading_layer :: "pstate \<Rightarrow> error + string" where
  "threading_layer s =
     (case threading_layer_name s of
        None \<Rightarrow> Inl (ValueError ''Threading layer is not initialized.'')
      | Some n \<Rightarrow> Inr n)"

section \<open>Backend selection\<close>

definition tbb_msg :: "string \<Rightarrow> string" where
  "tbb_msg v =
     ''The TBB threading layer requires TBB version 2019.5 or later i.e., '' @
     ''TBB_INTERFACE_VERSION >= 11005. Found TBB_INTERFACE_VERSION = '' @ v @
     ''. The TBB threading layer is disabled.''"

definition check_tbb_version_compatible :: "env \<Rightarrow> (error + unit) \<times> event list" where
  "check_tbb_version_compatible e =
     (case (if IS_WINDOWS (platform e) then Inr ''tbb''
            else if IS_OSX (platform e) then Inr ''libtbb.dylib''
            else if IS_LINUX (platform e) then Inr ''libtbb.so.2''
            else Inl ''Unknown operating system'') of
        Inl v \<Rightarrow> (Inl (ImportError (''Problem with TBB. Reason: '' @ v)), [])
      | Inr libtbb_name \<Rightarrow>
          (case tbb_runtime e of
             Inl oserr \<Rightarrow>
               (Inl (ImportError (''Problem with TBB. Reason: '' @ oserr)), [CDLL libtbb_name])
           | Inr tbb_iface_ver \<Rightarrow>
               if sint tbb_iface_ver < 11005
               then (Inl (ImportError (''Problem with TBB. Reason: '' @ tbb_msg ''%s'')),
                     [CDLL libtbb_name, Warn (tbb_msg (str_int (sint tbb_iface_ver)))])
               else (Inr (), [CDLL libtbb_name])))"

text \<open>
  \<open>select_known_backend\<close>: the result is \<open>Inr None\<close> where the source returns
  \<open>lib = None\<close>, \<open>Inr (Some l)\<close> for the imported module, \<open>Inl\<close> for an exception that
  leaves the function. Only the tbb and omp branches catch \<open>ImportError\<close>.
\<close>

definition select_known_backend :: "env \<Rightarrow> string \<Rightarrow> (error + lib option) \<times> event list" where
  "select_known_backend e backend =
     (if startswith backend ''tbb'' then
        (case check_tbb_version_compatible e of
           (Inl (ImportError m), evs) \<Rightarrow> (Inr None, evs)
         | (Inl err, evs) \<Rightarrow> (Inl err, evs)
         | (Inr u, evs) \<Rightarrow>
             if importable e tbbpool then (Inr (Some tbbpool), evs @ [Import tbbpool])
             else (Inr None, evs @ [Import tbbpool]))
      else if startswith backend ''omp'' then
        (if importable e omppool then (Inr (Some omppool), [Import omppool])
         else (Inr None, [Import omppool]))
      else if startswith backend ''workqueue'' then
        (if importable e workqueue then (Inr (Some workqueue), [Import workqueue])
         else (Inl (ImportError ''cannot import name workqueue from numba.np.ufunc''),
               [Import workqueue]))
      else (Inl (ValueError (''Unknown value specified for threading layer: '' @ backend)), []))"

text \<open>
  \<open>select_from_backends\<close>: the \<open>for ... else\<close> loop; the name is the empty string when
  the loop ends without a \<open>break\<close>.
\<close>

fun select_from_backends ::
  "env \<Rightarrow> string list \<Rightarrow> (error + lib option \<times> string) \<times> event list" where
  "select_from_backends e [] = (Inr (None, ''''), [])"
| "select_from_backends e (backend # backends) =
     (case select_known_backend e backend of
        (Inl err, evs) \<Rightarrow> (Inl err, evs)
      | (Inr (Some l), evs) \<Rightarrow> (Inr (Some l, backend), evs)
      | (Inr None, evs) \<Rightarrow>
          (case select_from_backends e backends of (r, evs') \<Rightarrow> (r, evs @ evs')))"

definition namedbackends :: "string list" where
  "namedbackends = [''tbb'', ''omp'', ''workqueue'']"

definition err_helpers :: "string \<rightharpoonup> string" where
  "err_helpers =
     map_of [(''TBB'', ''Intel TBB is required, try:\<newline>$ conda/pip install tbb''),
             (''OSX_OMP'',
              ''Intel OpenMP is required, try:\<newline>$ conda/pip install intel-openmp'')]"

definition errmsg :: "string \<Rightarrow> string" where
  "errmsg h = ''No threading layer could be loaded.\<newline>'' @ h"

definition hintmsg :: "string \<Rightarrow> string" where
  "hintmsg h = ''HINT:\<newline>'' @ h"

fun lookup_all :: "string list \<Rightarrow> error + string list" where
  "lookup_all [] = Inr []"
| "lookup_all (x # xs) =
     (case err_helpers x of
        None \<Rightarrow> Inl (KeyError x)
      | Some h \<Rightarrow> (case lookup_all xs of Inl err \<Rightarrow> Inl err | Inr hs \<Rightarrow> Inr (h # hs)))"

text \<open>\<open>raise_with_hint\<close> always raises; the model returns the exception.\<close>

definition raise_with_hint :: "string list \<Rightarrow> error" where
  "raise_with_hint required =
     (if length required = 0 then ValueError (errmsg '''')
      else if length required = 1 then
        (case err_helpers (hd required) of
           None \<Rightarrow> KeyError (hd required)
         | Some h \<Rightarrow> ValueError (errmsg (hintmsg h)))
      else
        (case lookup_all required of
           Inl err \<Rightarrow> err
         | Inr hs \<Rightarrow>
             ValueError (errmsg (hintmsg (''One of:\<newline>'' @ join ''\<newline>OR\<newline>'' hs)))))"

text \<open>
  The mode dispatch of \<open>_launch_threads\<close> (the \<open>if t in namedbackends ... else\<close>
  chain): the selected module, its name and the requirements collected for the hint.
\<close>

definition unknown_layer_msg :: "string \<Rightarrow> string" where
  "unknown_layer_msg t =
     ''The threading layer requested '' @ [CHR 0x27] @ t @ [CHR 0x27] @
     '' is unknown to Numba.''"

definition select_for_mode ::
  "env \<Rightarrow> string \<Rightarrow> (error + lib option \<times> string \<times> string list) \<times> event list" where
  "select_for_mode e t =
     (if t \<in> set namedbackends then
        (case select_known_backend e t of
           (Inl err, evs) \<Rightarrow> (Inl err, evs)
         | (Inr l, evs) \<Rightarrow>
             (Inr (l, t,
                   if l = None then
                     (if t = ''tbb'' then [''TBB'']
                      else if t = ''omp'' \<and> IS_OSX (platform e) then [''OSX_OMP'']
                      else [])
                   else []), evs))
      else if t \<in> set [''threadsafe'', ''forksafe'', ''safe''] then
        (let (available, requirements) =
               (if t = ''safe'' then ([''tbb''], [''TBB''])
                else if t = ''threadsafe'' then
                  ([''tbb'', ''omp''],
                   [''TBB''] @ (if IS_OSX (platform e) then [''OSX_OMP''] else []))
                else
                  ([''tbb''] @ (if \<not> IS_LINUX (platform e) then [''omp''] else []) @
                   [''workqueue''],
                   [''TBB''] @ (if IS_OSX (platform e) then [''OSX_OMP''] else [])))
         in case select_from_backends e available of
              (Inl err, evs) \<Rightarrow> (Inl err, evs)
            | (Inr (l, libname), evs) \<Rightarrow> (Inr (l, libname, requirements), evs))
      else if t = ''default'' then
        (case select_from_backends e namedbackends of
           (Inl err, evs) \<Rightarrow> (Inl err, evs)
         | (Inr (l, libname), evs) \<Rightarrow>
             (Inr (l, libname,
                   if l = None then
                     [''TBB''] @ (if IS_OSX (platform e) then [''OSX_OMP''] else [])
                   else []), evs))
      else (Inl (ValueError (unknown_layer_msg t)), []))"

section \<open>Initialization\<close>

definition load_num_threads_funcs :: "env \<Rightarrow> lib \<Rightarrow> pstate \<Rightarrow> pstate" where
  "load_num_threads_funcs e l s =
     (add_events s
        [Add_symbol ''get_num_threads'' l, Add_symbol ''set_num_threads'' l,
         Add_symbol ''get_thread_id'' l,
         Set_num_threads l (word_of_int (NUMBA_NUM_THREADS e))])
     \<lparr>num_threads_funcs := Some l\<rparr>"

definition parfor_load_late :: "lib \<Rightarrow> pstate \<Rightarrow> pstate" where
  "parfor_load_late l s =
     (add_events s
        [Add_symbol ''set_parallel_chunksize'' l, Add_symbol ''get_parallel_chunksize'' l,
         Add_symbol ''get_sched_size'' l])
     \<lparr>parfor_funcs := Some l\<rparr>"

text \<open>
  \<open>_launch_threads\<close>. The two locks serialise callers; one call at a time is what the
  model runs. \<open>NUM_THREADS\<close> is \<open>config.NUMBA_NUM_THREADS\<close> as read at import.
  The steps that can fail are the selection, \<open>raise_with_hint\<close>, the backend's
  \<open>launch_threads\<close> (the environment says whether it raises) and the call of
  \<open>parfor_load_late\<close>, a \<open>NameError\<close> while that name is not bound; a loaded backend
  module has the entry points the module reads from it, so registering symbols and binding
  the ctypes prototypes go through.
\<close>

definition launch_threads :: "env \<Rightarrow> pstate \<Rightarrow> (error + unit) \<times> pstate" where
  "launch_threads e s =
     (if is_initialized s then (Inr (), s)
      else
        (let t = lower (THREADING_LAYER e)
         in case select_for_mode e t of
              (Inl err, evs) \<Rightarrow> (Inl err, add_events s evs)
            | (Inr (None, libname, requirements), evs) \<Rightarrow>
                (Inl (raise_with_hint requirements), add_events s evs)
            | (Inr (Some l, libname, requirements), evs) \<Rightarrow>
                (let s1 = add_events s
                            (evs @ [Add_symbol ''numba_parallel_for'' l,
                                    Add_symbol ''do_scheduling_signed'' l,
                                    Add_symbol ''do_scheduling_unsigned'' l])
                 in if launch_raises e l then
                      (Inl (BackendError ''launch_threads''),
                       add_events s1 [Launch_raised l (word_of_int (NUMBA_NUM_THREADS e))])
                    else
                      (let s2 = add_events s1
                                  [Launch_threads l (word_of_int (NUMBA_NUM_THREADS e))];
                           s3 = load_num_threads_funcs e l s2
                       in if \<not> parfor_load_late_defined s3 then
                            (Inl (NameError ''parfor_load_late''), s3)
                          else
                            (let s4 = parfor_load_late l s3
                             in (Inr (),
                                 s4\<lparr>threading_layer_name := Some libname,
                                    is_initialized := True\<rparr>))))))"

section \<open>Execution parameters\<close>

text \<open>
  An argument as the Python caller passes it: an \<open>int\<close> or \<open>np.integer\<close>, or anything
  else (which the \<open>isinstance\<close> test rejects).
\<close>

datatype pyval = PyInt int | PyNonInt

definition snt_check :: "env \<Rightarrow> int \<Rightarrow> error + unit" where
  "snt_check e n =
     (if n > NUMBA_NUM_THREADS e \<or> n < 1 then
        Inl (ValueError (''The number of threads must be between 1 and '' @
                         str_int (NUMBA_NUM_THREADS e)))
      else Inr ())"

definition set_num_threads :: "env \<Rightarrow> pstate \<Rightarrow> pyval \<Rightarrow> (error + unit) \<times> pstate" where
  "set_num_threads e s v =
     (case launch_threads e s of
        (Inl err, s') \<Rightarrow> (Inl err, s')
      | (Inr u, s') \<Rightarrow>
          (case v of
             PyNonInt \<Rightarrow>
               (Inl (TypeError ''The number of threads specified must be an integer''), s')
           | PyInt n \<Rightarrow>
               (case snt_check e n of
                  Inl err \<Rightarrow> (Inl err, s')
                | Inr u' \<Rightarrow>
                    (case num_threads_funcs s' of
                       None \<Rightarrow> (Inl (NameError ''_set_num_threads''), s')
                     | Some l \<Rightarrow>
                         (Inr (), add_events s' [Set_num_threads l (word_of_int n)])))))"

definition get_num_threads :: "env \<Rightarrow> pstate \<Rightarrow> (error + int) \<times> pstate" where
  "get_num_threads e s =
     (case launch_threads e s of
        (Inl err, s') \<Rightarrow> (Inl err, s')
      | (Inr u, s') \<Rightarrow>
          (case num_threads_funcs s' of
             None \<Rightarrow> (Inl (NameError ''_get_num_threads''), s')
           | Some l \<Rightarrow>
               (let num_threads = sint (backend_num_threads e)
                in if num_threads \<le> 0 then
                     (Inl (RuntimeError
                             (''Invalid number of threads. '' @
                              ''This likely indicates a bug in Numba. '' @
                              ''(thread_id='' @ str_int (sint (backend_thread_id e)) @
                              '', num_threads='' @ str_int num_threads @ '')'')), s')
                   else (Inr num_threads, s'))))"

definition set_parallel_chunksize ::
  "env \<Rightarrow> pstate \<Rightarrow> pyval \<Rightarrow> (error + unit) \<times> pstate" where
  "set_parallel_chunksize e s v =
     (case launch_threads e s of
        (Inl err, s') \<Rightarrow> (Inl err, s')
      | (Inr u, s') \<Rightarrow>
          (case v of
             PyNonInt \<Rightarrow> (Inl (TypeError ''The parallel chunkize must be an integer''), s')
           | PyInt n \<Rightarrow>
               (case parfor_funcs s' of
                  None \<Rightarrow> (Inl (NameError ''_set_parallel_chunksize''), s')
                | Some l \<Rightarrow>
                    (Inr (), add_events s' [Set_parallel_chunksize l (word_of_int n)]))))"

section \<open>Sequences of calls and what they leave behind\<close>

fun is_launch :: "event \<Rightarrow> bool" where
  "is_launch (Launch_threads l n) = True"
| "is_launch ev = False"

definition completed_launches :: "event list \<Rightarrow> nat" where
  "completed_launches evs = length (filter is_launch evs)"

text \<open>
  Successive calls of \<open>_launch_threads\<close>, each with the environment it finds; the
  results are dropped, the state is threaded through.
\<close>

fun run_calls :: "env list \<Rightarrow> pstate \<Rightarrow> pstate" where
  "run_calls [] s = s"
| "run_calls (e # es) s = run_calls es (snd (launch_threads e s))"

text \<open>
  The globals of a process that has been initialized are bound: the only assignment of
  \<open>_is_initialized\<close> comes after \<open>_load_num_threads_funcs\<close> and \<open>parfor_load_late\<close>.
\<close>

definition bound_when_ready :: "pstate \<Rightarrow> bool" where
  "bound_when_ready s =
     (if is_initialized s then num_threads_funcs s \<noteq> None \<and> parfor_funcs s \<noteq> None
      else True)"

text \<open>The backend has been launched once if the process is initialized, and not at all otherwise.\<close>

definition once :: "pstate \<Rightarrow> bool" where
  "once s = (completed_launches (events s) = (if is_initialized s then 1 else 0))"

section \<open>The selection policy in the words of the specification\<close>

definition known_modes :: "string list" where
  "known_modes =
     [''tbb'', ''omp'', ''workqueue'', ''threadsafe'', ''forksafe'', ''safe'', ''default'']"

definition spec_candidates :: "platform \<Rightarrow> string \<Rightarrow> string list" where
  "spec_candidates p t =
     (if t = ''default'' then [''tbb'', ''omp'', ''workqueue'']
      else if t = ''safe'' then [''tbb'']
      else if t = ''threadsafe'' then [''tbb'', ''omp'']
      else if t = ''forksafe'' then
        (if p = Linux then [''tbb'', ''workqueue''] else [''tbb'', ''omp'', ''workqueue''])
      else if t = ''tbb'' \<or> t = ''omp'' \<or> t = ''workqueue'' then [t]
      else [])"

definition loads :: "env \<Rightarrow> string \<Rightarrow> bool" where
  "loads e b = (case fst (select_known_backend e b) of Inr (Some l) \<Rightarrow> True | _ \<Rightarrow> False)"

text \<open>The candidates reached when they are tried in order until one loads.\<close>

fun tried :: "env \<Rightarrow> string list \<Rightarrow> string list" where
  "tried e [] = []"
| "tried e (b # bs) = (if loads e b then [b] else b # tried e bs)"

text \<open>The candidates whose import sits inside \<open>try ... except ImportError\<close>.\<close>

definition guarded :: "string \<Rightarrow> bool" where
  "guarded b = (startswith b ''tbb'' \<or> startswith b ''omp'')"

section \<open>Range partition\<close>

text \<open>
  Modelled from the spec: the range scheduler (\<open>do_scheduling_signed\<close>,
  \<open>do_scheduling_unsigned\<close>, \<open>get_sched_size\<close>) is code of the backend libraries, of
  which this module only registers the symbols. The specification gives the partition for
  chunk size 0: \<open>min(thread_count, total_count)\<close> contiguous ranges starting at 0, each of
  \<open>total_count div thread_count\<close> elements, the first \<open>total_count mod thread_count\<close>
  of them with one element more.
\<close>

definition range_size :: "nat \<Rightarrow> nat \<Rightarrow> nat \<Rightarrow> nat" where
  "range_size total_count thread_count i =
     total_count div thread_count + (if i < total_count mod thread_count then 1 else 0)"

fun ranges_from :: "nat \<Rightarrow> nat list \<Rightarrow> (nat \<times> nat) list" where
  "ranges_from start [] = []"
| "ranges_from start (n # ns) = (start, start + n) # ranges_from (start + n) ns"

definition schedule_ranges :: "nat \<Rightarrow> nat \<Rightarrow> (nat \<times> nat) list" where
  "schedule_ranges total_count thread_count =
     ranges_from 0
       (map (range_size total_count thread_count) [0..<min thread_count total_count])"

definition range_len :: "nat \<times> nat \<Rightarrow> nat" where
  "range_len r = snd r - fst r"

definition elements :: "(nat \<times> nat) list \<Rightarrow> nat list" where
  "elements rs = concat (map (\<lambda>r. [fst r..<snd r]) rs)"

section \<open>Example environments\<close>

text \<open>
  A Linux machine with four threads configured, an old TBB runtime (interface version
  11004), no OpenMP backend and the built-in workqueue backend; the mode is written with a
  capital letter.
\<close>

definition env_example :: env where
  "env_example =
     \<lparr>THREADING_LAYER = ''Default'', NUMBA_NUM_THREADS = 4, platform = Linux,
      tbb_runtime = Inr 11004, importable = (\<lambda>l. l = workqueue),
      launch_raises = (\<lambda>l. False), backend_num_threads = 4, backend_thread_id = 0\<rparr>"

definition ready_state :: pstate where
  "ready_state =
     \<lparr>is_initialized = True, threading_layer_name = Some ''workqueue'',
      num_threads_funcs = Some workqueue, parfor_funcs = Some workqueue,
      parfor_load_late_defined = True,
      events =
        [CDLL ''libtbb.so.2'', Warn (tbb_msg ''11004''), Import omppool, Import workqueue,
         Add_symbol ''numba_parallel_for'' workqueue,
         Add_symbol ''do_scheduling_signed'' workqueue,
         Add_symbol ''do_scheduling_unsigned'' workqueue,
         Launch_threads workqueue 4,
         Add_symbol ''get_num_threads'' workqueue, Add_symbol ''set_num_threads'' workqueue,
         Add_symbol ''get_thread_id'' workqueue, Set_num_threads workqueue 4,
         Add_symbol ''set_parallel_chunksize'' workqueue,
         Add_symbol ''get_parallel_chunksize'' workqueue,
         Add_symbol ''get_sched_size'' workqueue]\<rparr>"

text \<open>The same machine with no backend module that can be imported.\<close>

definition env_nothing :: env where
  "env_nothing = env_example\<lparr>importable := (\<lambda>l. False)\<rparr>"

text \<open>The same machine where the backend's launch call raises.\<close>

definition env_launch_fails :: env where
  "env_launch_fails = env_example\<lparr>launch_raises := (\<lambda>l. True)\<rparr>"

text \<open>The same machine with a mode that is not one of the seven.\<close>

definition env_unknown :: env where
  "env_unknown = env_example\<lparr>THREADING_LAYER := ''Fast''\<rparr>"

text \<open>The same machine in mode forksafe, with a recent TBB runtime but no tbbpool module, and an OpenMP backend.\<close>

definition env_forksafe :: env where
  "env_forksafe = env_example\<lparr>THREADING_LAYER := ''forksafe'', importable := (\<lambda>l. l \<noteq> tbbpool),
     tbb_runtime := Inr 12000\<rparr>"

text \<open>A macOS machine in mode threadsafe where no backend module can be imported.\<close>

definition env_threadsafe_osx :: env where
  "env_threadsafe_osx = env_nothing\<lparr>THREADING_LAYER := ''threadsafe'', platform := OSX\<rparr>"

text \<open>The same machine with a backend that reports a thread count of -3 from thread 2.\<close>

definition env_bad_count :: env where
  "env_bad_count = env_example\<lparr>backend_num_threads := - 3, backend_thread_id := 2\<rparr>"

lemmas model_defs =
  launch_threads_def select_for_mode_def select_known_backend_def
  check_tbb_version_compatible_def namedbackends_def startswith_def lower_def
  lower_char_def IS_OSX_def IS_LINUX_def IS_WINDOWS_def add_events_def
  load_num_threads_funcs_def parfor_load_late_def initial_state_def

lemmas example_defs =
  env_example_def env_nothing_def env_launch_fails_def ready_state_def

section \<open>Evaluating the examples\<close>

lemma str_int_11004: "str_int 11004 = ''11004''"
  by (simp add: str_int_def str_nat.simps)

lemma str_int_4: "str_int 4 = ''4''"
  by (simp add: str_int_def str_nat.simps)

lemma launch_example: "launch_threads env_example initial_state = (Inr (), ready_state)"
  by (simp add: model_defs example_defs str_int_11004)

section \<open>Initialization happens once\<close>

lemma completed_launches_append [simp]:
  "completed_launches (xs @ ys) = completed_launches xs + completed_launches ys"
  by (simp add: completed_launches_def)

lemma completed_launches_Nil [simp]: "completed_launches [] = 0"
  by (simp add: completed_launches_def)

lemma check_tbb_no_launch:
  "completed_launches (snd (check_tbb_version_compatible e)) = 0"
  by (simp add: check_tbb_version_compatible_def completed_launches_def split: sum.splits)

lemma select_known_backend_no_launch:
  "completed_launches (snd (select_known_backend e b)) = 0"
proof -
  obtain r evs where c: "check_tbb_version_compatible e = (r, evs)"
    by (cases "check_tbb_version_compatible e")
  with check_tbb_no_launch [of e] have "completed_launches evs = 0" by simp
  then show ?thesis
    by (simp add: select_known_backend_def c completed_launches_def
             split: sum.splits error.splits)
qed

lemma select_from_backends_no_launch:
  "completed_launches (snd (select_from_backends e bs)) = 0"
proof (induction bs)
  case Nil
  show ?case by simp
next
  case (Cons b bs)
  obtain r evs where k: "select_known_backend e b = (r, evs)"
    by (cases "select_known_backend e b")
  with select_known_backend_no_launch [of e b] have z: "completed_launches evs = 0" by simp
  obtain r' evs' where f: "select_from_backends e bs = (r', evs')"
    by (cases "select_from_backends e bs")
  with Cons have z': "completed_launches evs' = 0" by simp
  show ?case
    by (simp add: k f z z' split: sum.splits option.splits)
qed

lemma snd_known_case:
  "snd (case p of (Inl err, evs) \<Rightarrow> (Inl err, evs) | (Inr l, evs) \<Rightarrow> (Inr (g l), evs)) = snd p"
  by (simp split: prod.splits sum.splits)

lemma snd_from_case:
  "snd (case p of (Inl err, evs) \<Rightarrow> (Inl err, evs)
        | (Inr (l, libname), evs) \<Rightarrow> (Inr (g l libname), evs)) = snd p"
  by (simp split: prod.splits sum.splits)

lemma select_for_mode_events:
  "snd (select_for_mode e t) =
     (if t \<in> set namedbackends then snd (select_known_backend e t)
      else if t = ''safe'' then snd (select_from_backends e [''tbb''])
      else if t = ''threadsafe'' then snd (select_from_backends e [''tbb'', ''omp''])
      else if t = ''forksafe'' then
        snd (select_from_backends e
               ([''tbb''] @ (if \<not> IS_LINUX (platform e) then [''omp''] else []) @
                [''workqueue'']))
      else if t = ''default'' then snd (select_from_backends e namedbackends)
      else [])"
  unfolding select_for_mode_def
  by (simp add: snd_known_case snd_from_case del: select_from_backends.simps)

lemma select_for_mode_no_launch:
  "completed_launches (snd (select_for_mode e t)) = 0"
  by (simp add: select_for_mode_events select_known_backend_no_launch
        select_from_backends_no_launch del: select_from_backends.simps)


lemma launch_threads_ready: "is_initialized s \<Longrightarrow> launch_threads e s = (Inr (), s)"
  by (simp add: launch_threads_def)

lemma run_calls_ready: "is_initialized s \<Longrightarrow> run_calls es s = s"
  by (induction es) (simp_all add: launch_threads_ready)

text \<open>The five ways through the body of an uninitialized call.\<close>

lemma launch_threads_cases:
  assumes u: "\<not> is_initialized s"
  obtains
    (select_raises) err evs where
      "select_for_mode e (lower (THREADING_LAYER e)) = (Inl err, evs)"
      "launch_threads e s = (Inl err, add_events s evs)"
  | (nothing_loaded) libname requirements evs where
      "select_for_mode e (lower (THREADING_LAYER e)) = (Inr (None, libname, requirements), evs)"
      "launch_threads e s = (Inl (raise_with_hint requirements), add_events s evs)"
  | (launch_raises) l libname requirements evs where
      "select_for_mode e (lower (THREADING_LAYER e)) = (Inr (Some l, libname, requirements), evs)"
      "launch_raises e l"
      "launch_threads e s =
         (Inl (BackendError ''launch_threads''),
          add_events s
            (evs @ [Add_symbol ''numba_parallel_for'' l, Add_symbol ''do_scheduling_signed'' l,
                    Add_symbol ''do_scheduling_unsigned'' l,
                    Launch_raised l (word_of_int (NUMBA_NUM_THREADS e))]))"
  | (launched) l libname requirements evs where
      "select_for_mode e (lower (THREADING_LAYER e)) = (Inr (Some l, libname, requirements), evs)"
      "\<not> launch_raises e l"
      "parfor_load_late_defined s"
      "launch_threads e s =
         (Inr (),
          (add_events s
            (evs @ [Add_symbol ''numba_parallel_for'' l, Add_symbol ''do_scheduling_signed'' l,
                    Add_symbol ''do_scheduling_unsigned'' l,
                    Launch_threads l (word_of_int (NUMBA_NUM_THREADS e)),
                    Add_symbol ''get_num_threads'' l, Add_symbol ''set_num_threads'' l,
                    Add_symbol ''get_thread_id'' l,
                    Set_num_threads l (word_of_int (NUMBA_NUM_THREADS e)),
                    Add_symbol ''set_parallel_chunksize'' l,
                    Add_symbol ''get_parallel_chunksize'' l,
                    Add_symbol ''get_sched_size'' l]))
          \<lparr>threading_layer_name := Some libname, is_initialized := True,
            num_threads_funcs := Some l, parfor_funcs := Some l\<rparr>)"
  | (load_late_unbound) l libname requirements evs where
      "select_for_mode e (lower (THREADING_LAYER e)) = (Inr (Some l, libname, requirements), evs)"
      "\<not> launch_raises e l"
      "\<not> parfor_load_late_defined s"
      "launch_threads e s =
         (Inl (NameError ''parfor_load_late''),
          (add_events s
            (evs @ [Add_symbol ''numba_parallel_for'' l, Add_symbol ''do_scheduling_signed'' l,
                    Add_symbol ''do_scheduling_unsigned'' l,
                    Launch_threads l (word_of_int (NUMBA_NUM_THREADS e)),
                    Add_symbol ''get_num_threads'' l, Add_symbol ''set_num_threads'' l,
                    Add_symbol ''get_thread_id'' l,
                    Set_num_threads l (word_of_int (NUMBA_NUM_THREADS e))]))
          \<lparr>num_threads_funcs := Some l\<rparr>)"
proof -
  obtain r evs where m: "select_for_mode e (lower (THREADING_LAYER e)) = (r, evs)"
    by (cases "select_for_mode e (lower (THREADING_LAYER e))")
  show thesis
  proof (cases r)
    case (Inl err)
    with m u have "launch_threads e s = (Inl err, add_events s evs)"
      by (simp add: launch_threads_def)
    with m Inl show thesis by (rule_tac select_raises) simp_all
  next
    case (Inr x)
    obtain lo libname requirements where x: "x = (lo, libname, requirements)"
      by (cases x)
    show thesis
    proof (cases lo)
      case None
      with m u Inr x
      have "launch_threads e s = (Inl (raise_with_hint requirements), add_events s evs)"
        by (simp add: launch_threads_def)
      with m Inr x None show thesis by (rule_tac nothing_loaded) simp_all
    next
      case (Some l)
      show thesis
      proof (cases "launch_raises e l")
        case True
        with m u Inr x Some show thesis
          by (rule_tac launch_raises [of l libname requirements evs])
             (simp_all add: launch_threads_def add_events_def)
      next
        case False
        show thesis
        proof (cases "parfor_load_late_defined s")
          case d: True
          with False m u Inr x Some show thesis
            by (rule_tac launched [of l libname requirements evs])
               (simp_all add: launch_threads_def add_events_def load_num_threads_funcs_def
                  parfor_load_late_def)
        next
          case d: False
          with False m u Inr x Some show thesis
            by (rule_tac load_late_unbound [of l libname requirements evs])
               (simp_all add: launch_threads_def add_events_def load_num_threads_funcs_def)
        qed
      qed
    qed
  qed
qed

lemma launch_threads_keeps_binding:
  "parfor_load_late_defined (snd (launch_threads e s)) = parfor_load_late_defined s"
proof (cases "is_initialized s")
  case True
  then show ?thesis by (simp add: launch_threads_ready)
next
  case False
  show ?thesis
    by (rule launch_threads_cases [OF False, of e]) (simp_all add: add_events_def)
qed

text \<open>
  Once the module has been imported (\<open>parfor_load_late\<close> is bound), a call that fails has
  not launched the backend.
\<close>

lemma launch_threads_first:
  assumes "\<not> is_initialized s" and "parfor_load_late_defined s"
  shows "(fst (launch_threads e s) = Inr () \<longrightarrow>
            is_initialized (snd (launch_threads e s)) \<and>
            completed_launches (events (snd (launch_threads e s))) =
              completed_launches (events s) + 1) \<and>
         (fst (launch_threads e s) \<noteq> Inr () \<longrightarrow>
            \<not> is_initialized (snd (launch_threads e s)) \<and>
            completed_launches (events (snd (launch_threads e s))) =
              completed_launches (events s))"
proof (rule launch_threads_cases [OF assms(1), of e], goal_cases)
  case (1 err evs)
  with select_for_mode_no_launch [of e "lower (THREADING_LAYER e)"] assms
  show ?thesis by (simp add: add_events_def)
next
  case (2 libname requirements evs)
  with select_for_mode_no_launch [of e "lower (THREADING_LAYER e)"] assms
  show ?thesis by (simp add: add_events_def)
next
  case (3 l libname requirements evs)
  with select_for_mode_no_launch [of e "lower (THREADING_LAYER e)"] assms
  show ?thesis by (simp add: add_events_def completed_launches_def)
next
  case (4 l libname requirements evs)
  with select_for_mode_no_launch [of e "lower (THREADING_LAYER e)"] assms
  show ?thesis by (simp add: add_events_def completed_launches_def)
next
  case (5 l libname requirements evs)
  with assms show ?thesis by simp
qed

lemma once_step:
  assumes "once s" and "parfor_load_late_defined s"
  shows "once (snd (launch_threads e s))"
proof (cases "is_initialized s")
  case True
  with assms show ?thesis by (simp add: launch_threads_ready)
next
  case False
  show ?thesis
  proof (cases "fst (launch_threads e s) = Inr ()")
    case True
    with launch_threads_first [OF False assms(2), of e] assms(1) False show ?thesis
      by (simp add: once_def)
  next
    case f: False
    with launch_threads_first [OF False assms(2), of e] assms(1) False show ?thesis
      by (simp add: once_def)
  qed
qed

lemma once_run:
  "once s \<Longrightarrow> parfor_load_late_defined s \<Longrightarrow> once (run_calls es s)"
  by (induction es arbitrary: s) (simp_all add: once_step launch_threads_keeps_binding)

text \<open>
  In a module that has been imported, the statement of C1 holds: a call of
  \<open>_launch_threads\<close> in an initialized process returns at once and leaves the whole state
  as it was, as does any further sequence of calls; the call that succeeds from an
  uninitialized state sets the flag and makes one launch; along any sequence of calls that
  starts after the import, the number of completed launches is one once the process is
  initialized and zero before.
\<close>

lemma launch_threads_once_after_import:
  "(is_initialized s \<longrightarrow> launch_threads e s = (Inr (), s) \<and> run_calls es s = s) \<and>
   (\<not> is_initialized s \<and> fst (launch_threads e s) = Inr () \<longrightarrow>
      is_initialized (snd (launch_threads e s)) \<and>
      completed_launches (events (snd (launch_threads e s))) =
        completed_launches (events s) + 1) \<and>
   completed_launches (events (run_calls es initial_state)) =
     (if is_initialized (run_calls es initial_state) then 1 else 0)"
proof -
  have "once initial_state" "parfor_load_late_defined initial_state"
    by (simp_all add: once_def initial_state_def)
  then have o: "once (run_calls es initial_state)" by (rule once_run)
  have "is_initialized (snd (launch_threads e s)) \<and>
        completed_launches (events (snd (launch_threads e s))) =
          completed_launches (events s) + 1"
    if u: "\<not> is_initialized s" and f: "fst (launch_threads e s) = Inr ()"
  proof (rule launch_threads_cases [OF u, of e], goal_cases)
    case (4 l libname requirements evs)
    with select_for_mode_no_launch [of e "lower (THREADING_LAYER e)"] show ?case
      by (simp add: add_events_def completed_launches_def)
  qed (use f in simp_all)
  with o show ?thesis
    by (auto simp: once_def launch_threads_ready run_calls_ready)
qed

text \<open>
  C1. With \<open>NUMBA_DYLD_WORKAROUND\<close> set, the module body calls \<open>_launch_threads()\<close> at
  line 653, before \<open>parfor_load_late\<close> is defined at line 656. On the example machine that
  call selects workqueue, launches it, sets its thread count and then fails with a
  \<open>NameError\<close>: the backend has been launched by a call that did not succeed, and the
  process is not initialized. When the import is attempted again, the same happens again,
  and the backend has been launched twice.
\<close>

theorem import_time_call_launches_and_fails:
  "\<not> is_initialized import_time_state \<and>
   fst (launch_threads env_example import_time_state) = Inl (NameError ''parfor_load_late'') \<and>
   \<not> is_initialized (snd (launch_threads env_example import_time_state)) \<and>
   threading_layer_name (snd (launch_threads env_example import_time_state)) = None \<and>
   completed_launches (events (snd (launch_threads env_example import_time_state))) = 1 \<and>
   Set_num_threads workqueue 4 \<in>
     set (events (snd (launch_threads env_example import_time_state))) \<and>
   fst (launch_threads env_example
          (reimport (snd (launch_threads env_example import_time_state)))) =
     Inl (NameError ''parfor_load_late'') \<and>
   completed_launches
     (events (snd (launch_threads env_example
                     (reimport (snd (launch_threads env_example import_time_state)))))) = 2"
  by (simp add: model_defs example_defs import_time_state_def reimport_def str_int_11004
        completed_launches_def)

section \<open>Failed initialization\<close>

lemma launch_threads_failed_flags:
  assumes "\<not> is_initialized s" and "fst (launch_threads e s) \<noteq> Inr ()"
  shows "\<not> is_initialized (snd (launch_threads e s)) \<and>
         threading_layer_name (snd (launch_threads e s)) = threading_layer_name s \<and>
         parfor_funcs (snd (launch_threads e s)) = parfor_funcs s"
  using assms
  by (rule_tac launch_threads_cases [OF assms(1), of e]) (simp_all add: add_events_def)

lemma launch_threads_succeeds_iff:
  assumes "\<not> is_initialized s"
  shows "fst (launch_threads e s) = Inr () \<longleftrightarrow>
         (\<exists>l libname requirements evs.
            select_for_mode e (lower (THREADING_LAYER e)) =
              (Inr (Some l, libname, requirements), evs) \<and> \<not> launch_raises e l) \<and>
         parfor_load_late_defined s"
  by (rule launch_threads_cases [OF assms, of e]) auto

text \<open>An uninitialized call runs the selection: its events come first.\<close>

lemma launch_threads_runs_selection:
  assumes "\<not> is_initialized s"
  shows "\<exists>rest. events (snd (launch_threads e s)) =
                  events s @ snd (select_for_mode e (lower (THREADING_LAYER e))) @ rest"
  by (rule launch_threads_cases [OF assms, of e]) (simp_all add: add_events_def)

text \<open>
  When the selection has found a backend, the call registers its scheduling symbols and
  calls its \<open>launch_threads\<close> with the configured thread count.
\<close>

lemma launch_threads_calls_launch:
  assumes "\<not> is_initialized s"
    and "fst (select_for_mode e (lower (THREADING_LAYER e))) = Inr (Some l, libname, req)"
  shows "\<exists>rest. events (snd (launch_threads e s)) =
                  events s @ snd (select_for_mode e (lower (THREADING_LAYER e))) @
                  [Add_symbol ''numba_parallel_for'' l, Add_symbol ''do_scheduling_signed'' l,
                   Add_symbol ''do_scheduling_unsigned'' l,
                   (if launch_raises e l
                    then Launch_raised l (word_of_int (NUMBA_NUM_THREADS e))
                    else Launch_threads l (word_of_int (NUMBA_NUM_THREADS e)))] @ rest"
  using assms(2)
  by (rule_tac launch_threads_cases [OF assms(1), of e]) (simp_all add: add_events_def)

lemma launch_selected:
  assumes u: "\<not> is_initialized s" and d: "parfor_load_late_defined s"
    and m: "fst (select_for_mode e (lower (THREADING_LAYER e))) = Inr (Some l, b, r)"
    and n: "\<not> launch_raises e l"
  shows "fst (launch_threads e s) = Inr () \<and>
         is_initialized (snd (launch_threads e s)) \<and>
         threading_layer (snd (launch_threads e s)) = Inr b"
  using m n d
  by (rule_tac launch_threads_cases [OF u, of e]) (simp_all add: threading_layer_def)

text \<open>
  C2. When a call of \<open>_launch_threads\<close> in an uninitialized process fails, whatever
  the step that failed, the error is what the caller gets, \<open>_is_initialized\<close> is still
  unset and \<open>_threading_layer\<close> is still unset (the query \<open>threading_layer()\<close> still
  fails). The next call, in any environment, runs the whole sequence again: first the
  selection for the configured mode, whose load attempts are added to what has happened so
  far; then, if the selection has found a backend, the registration of its scheduling
  symbols and the call of its \<open>launch_threads\<close>; and, in an imported module, if that call
  does not raise, the retry succeeds, the process is initialized and the layer name is set.
\<close>

theorem launch_threads_failure_retry:
  assumes "\<not> is_initialized s" and "threading_layer_name s = None"
    and "fst (launch_threads e s) = Inl err"
  shows "\<not> is_initialized (snd (launch_threads e s)) \<and>
         threading_layer_name (snd (launch_threads e s)) = None \<and>
         threading_layer (snd (launch_threads e s)) =
           Inl (ValueError ''Threading layer is not initialized.'') \<and>
         (\<exists>rest. events (snd (launch_threads e2 (snd (launch_threads e s)))) =
                   events (snd (launch_threads e s)) @
                   snd (select_for_mode e2 (lower (THREADING_LAYER e2))) @ rest) \<and>
         (\<forall>l libname req.
            fst (select_for_mode e2 (lower (THREADING_LAYER e2))) = Inr (Some l, libname, req) \<longrightarrow>
              (\<exists>rest. events (snd (launch_threads e2 (snd (launch_threads e s)))) =
                        events (snd (launch_threads e s)) @
                        snd (select_for_mode e2 (lower (THREADING_LAYER e2))) @
                        [Add_symbol ''numba_parallel_for'' l,
                         Add_symbol ''do_scheduling_signed'' l,
                         Add_symbol ''do_scheduling_unsigned'' l,
                         (if launch_raises e2 l
                          then Launch_raised l (word_of_int (NUMBA_NUM_THREADS e2))
                          else Launch_threads l (word_of_int (NUMBA_NUM_THREADS e2)))] @ rest) \<and>
              (\<not> launch_raises e2 l \<and> parfor_load_late_defined s \<longrightarrow>
                 fst (launch_threads e2 (snd (launch_threads e s))) = Inr () \<and>
                 is_initialized (snd (launch_threads e2 (snd (launch_threads e s)))) \<and>
                 threading_layer (snd (launch_threads e2 (snd (launch_threads e s)))) =
                   Inr libname))"
proof -
  let ?s' = "snd (launch_threads e s)"
  from assms(3) have f: "fst (launch_threads e s) \<noteq> Inr ()" by simp
  from launch_threads_failed_flags [OF assms(1) f] assms(2)
  have u: "\<not> is_initialized ?s'" and t: "threading_layer_name ?s' = None" by simp_all
  have d: "parfor_load_late_defined ?s' = parfor_load_late_defined s"
    by (rule launch_threads_keeps_binding)
  show ?thesis
  proof (intro conjI allI impI)
    show "\<not> is_initialized ?s'" by (rule u)
    show "threading_layer_name ?s' = None" by (rule t)
    show "threading_layer ?s' = Inl (ValueError ''Threading layer is not initialized.'')"
      using t by (simp add: threading_layer_def)
    show "\<exists>rest. events (snd (launch_threads e2 ?s')) =
                   events ?s' @ snd (select_for_mode e2 (lower (THREADING_LAYER e2))) @ rest"
      by (rule launch_threads_runs_selection [OF u])
  next
    fix l libname req
    assume m: "fst (select_for_mode e2 (lower (THREADING_LAYER e2))) =
                 Inr (Some l, libname, req)"
    show "\<exists>rest. events (snd (launch_threads e2 ?s')) =
                   events ?s' @ snd (select_for_mode e2 (lower (THREADING_LAYER e2))) @
                   [Add_symbol ''numba_parallel_for'' l,
                    Add_symbol ''do_scheduling_signed'' l,
                    Add_symbol ''do_scheduling_unsigned'' l,
                    (if launch_raises e2 l
                     then Launch_raised l (word_of_int (NUMBA_NUM_THREADS e2))
                     else Launch_threads l (word_of_int (NUMBA_NUM_THREADS e2)))] @ rest"
      by (rule launch_threads_calls_launch [OF u m])
    assume "\<not> launch_raises e2 l \<and> parfor_load_late_defined s"
    then have n: "\<not> launch_raises e2 l" and d': "parfor_load_late_defined ?s'"
      using d by simp_all
    from launch_selected [OF u d' m n]
    show "fst (launch_threads e2 ?s') = Inr ()"
      "is_initialized (snd (launch_threads e2 ?s'))"
      "threading_layer (snd (launch_threads e2 ?s')) = Inr libname"
      by simp_all
  qed
qed

lemma launch_env_unknown:
  "launch_threads env_unknown initial_state =
     (Inl (ValueError (unknown_layer_msg ''fast'')), initial_state)"
  by (simp add: model_defs env_unknown_def example_defs)

lemma launch_env_nothing:
  "launch_threads env_nothing initial_state =
     (Inl (ImportError ''cannot import name workqueue from numba.np.ufunc''),
      add_events initial_state
        [CDLL ''libtbb.so.2'', Warn (tbb_msg ''11004''), Import omppool, Import workqueue])"
  by (simp add: model_defs example_defs str_int_11004)

lemma launch_env_launch_fails:
  "launch_threads env_launch_fails initial_state =
     (Inl (BackendError ''launch_threads''),
      add_events initial_state
        [CDLL ''libtbb.so.2'', Warn (tbb_msg ''11004''), Import omppool, Import workqueue,
         Add_symbol ''numba_parallel_for'' workqueue,
         Add_symbol ''do_scheduling_signed'' workqueue,
         Add_symbol ''do_scheduling_unsigned'' workqueue,
         Launch_raised workqueue 4])"
  by (simp add: model_defs example_defs str_int_11004)

lemma select_example:
  "select_for_mode env_example (lower (THREADING_LAYER env_example)) =
     (Inr (Some workqueue, ''workqueue'', []),
      [CDLL ''libtbb.so.2'', Warn (tbb_msg ''11004''), Import omppool, Import workqueue])"
  by (simp add: model_defs example_defs str_int_11004)

text \<open>
  The witness: on the example machine a first call fails because the launch raises, because
  the mode is unknown, or because no backend module can be imported; each time the flag and
  the layer name stay unset, and the retry on the machine with a working workqueue backend
  tries tbb, omp and workqueue again, registers the symbols, launches workqueue with 4
  threads and leaves the process initialized. The call the module body makes at import
  fails after the launch; the flag and the layer name stay unset there too, and a further
  call runs the selection and launches again.
\<close>

theorem launch_threads_failure_retry_witness:
  "\<not> is_initialized initial_state \<and> threading_layer_name initial_state = None \<and>
   fst (launch_threads env_launch_fails initial_state) = Inl (BackendError ''launch_threads'') \<and>
   fst (launch_threads env_unknown initial_state) =
     Inl (ValueError (unknown_layer_msg ''fast'')) \<and>
   fst (launch_threads env_nothing initial_state) =
     Inl (ImportError ''cannot import name workqueue from numba.np.ufunc'') \<and>
   \<not> is_initialized (snd (launch_threads env_launch_fails initial_state)) \<and>
   threading_layer_name (snd (launch_threads env_launch_fails initial_state)) = None \<and>
   (\<exists>rest. events (snd (launch_threads env_example
                           (snd (launch_threads env_launch_fails initial_state)))) =
             events (snd (launch_threads env_launch_fails initial_state)) @
             [CDLL ''libtbb.so.2'', Warn (tbb_msg ''11004''), Import omppool, Import workqueue] @
             [Add_symbol ''numba_parallel_for'' workqueue,
              Add_symbol ''do_scheduling_signed'' workqueue,
              Add_symbol ''do_scheduling_unsigned'' workqueue,
              Launch_threads workqueue 4] @ rest) \<and>
   fst (launch_threads env_example (snd (launch_threads env_launch_fails initial_state))) =
     Inr () \<and>
   is_initialized
     (snd (launch_threads env_example (snd (launch_threads env_launch_fails initial_state)))) \<and>
   threading_layer
     (snd (launch_threads env_example (snd (launch_threads env_launch_fails initial_state)))) =
     Inr ''workqueue'' \<and>
   fst (launch_threads env_example (snd (launch_threads env_unknown initial_state))) = Inr () \<and>
   fst (launch_threads env_example (snd (launch_threads env_nothing initial_state))) = Inr () \<and>
   \<not> is_initialized import_time_state \<and> threading_layer_name import_time_state = None \<and>
   fst (launch_threads env_example import_time_state) = Inl (NameError ''parfor_load_late'') \<and>
   \<not> is_initialized (snd (launch_threads env_example import_time_state)) \<and>
   threading_layer_name (snd (launch_threads env_example import_time_state)) = None \<and>
   (\<exists>rest. events (snd (launch_threads env_example
                           (snd (launch_threads env_example import_time_state)))) =
             events (snd (launch_threads env_example import_time_state)) @
             [CDLL ''libtbb.so.2'', Warn (tbb_msg ''11004''), Import omppool, Import workqueue] @
             [Add_symbol ''numba_parallel_for'' workqueue,
              Add_symbol ''do_scheduling_signed'' workqueue,
              Add_symbol ''do_scheduling_unsigned'' workqueue,
              Launch_threads workqueue 4] @ rest)"
proof -
  have i: "\<not> is_initialized initial_state" "threading_layer_name initial_state = None"
    "parfor_load_late_defined initial_state"
    by (simp_all add: initial_state_def)
  have r: "\<not> launch_raises env_example workqueue" "NUMBA_NUM_THREADS env_example = 4"
    by (simp_all add: env_example_def)
  have a: "fst (launch_threads env_launch_fails initial_state) =
             Inl (BackendError ''launch_threads'')"
    "fst (launch_threads env_unknown initial_state) =
       Inl (ValueError (unknown_layer_msg ''fast''))"
    "fst (launch_threads env_nothing initial_state) =
       Inl (ImportError ''cannot import name workqueue from numba.np.ufunc'')"
    by (simp_all add: launch_env_launch_fails launch_env_unknown launch_env_nothing)
  have j: "\<not> is_initialized import_time_state" "threading_layer_name import_time_state = None"
    by (simp_all add: import_time_state_def initial_state_def)
  have b: "fst (launch_threads env_example import_time_state) =
             Inl (NameError ''parfor_load_late'')"
    by (simp add: model_defs example_defs import_time_state_def str_int_11004)
  from launch_threads_failure_retry [OF i(1,2) a(1), of env_example]
    launch_threads_failure_retry [OF i(1,2) a(2), of env_example]
    launch_threads_failure_retry [OF i(1,2) a(3), of env_example]
    launch_threads_failure_retry [OF j b, of env_example]
  show ?thesis
    by (simp add: i j r a b select_example)
qed

section \<open>Selection order\<close>

lemma check_tbb_error:
  "fst (check_tbb_version_compatible e) = Inr () \<or>
   (\<exists>m. fst (check_tbb_version_compatible e) = Inl (ImportError m))"
  by (simp add: check_tbb_version_compatible_def split: sum.splits)

lemma guarded_unavailable:
  assumes "guarded b" and "\<not> loads e b"
  shows "fst (select_known_backend e b) = Inr None"
proof -
  obtain r evs where c: "check_tbb_version_compatible e = (r, evs)"
    by (cases "check_tbb_version_compatible e")
  with check_tbb_error [of e] have "r = Inr () \<or> (\<exists>m. r = Inl (ImportError m))" by simp
  with assms c show ?thesis
    by (auto simp: guarded_def loads_def select_known_backend_def split: if_splits)
qed

lemma loads_selected:
  assumes "loads e b"
  shows "\<exists>l. fst (select_known_backend e b) = Inr (Some l)"
  using assms by (auto simp: loads_def split: sum.splits option.splits)

lemma select_from_backends_tried:
  assumes "set (butlast bs) \<subseteq> Collect guarded"
  shows "snd (select_from_backends e bs) =
           concat (map (\<lambda>b. snd (select_known_backend e b)) (tried e bs))"
  using assms
proof (induction bs)
  case Nil
  show ?case by simp
next
  case (Cons b bs)
  obtain r evs where k: "select_known_backend e b = (r, evs)"
    by (cases "select_known_backend e b")
  obtain r' evs' where f: "select_from_backends e bs = (r', evs')"
    by (cases "select_from_backends e bs")
  show ?case
  proof (cases "loads e b")
    case True
    with loads_selected [OF True] k show ?thesis by auto
  next
    case False
    show ?thesis
    proof (cases "bs = []")
      case True
      with False k show ?thesis by (auto split: sum.splits option.splits)
    next
      case n: False
      with Cons.prems have g: "guarded b" and p: "set (butlast bs) \<subseteq> Collect guarded"
        by auto
      from guarded_unavailable [OF g False] k have "r = Inr None" by simp
      with Cons.IH [OF p] False k f show ?thesis by simp
    qed
  qed
qed

lemma select_from_backends_first:
  assumes "set (butlast bs) \<subseteq> Collect guarded" and "find (loads e) bs = Some b"
  shows "\<exists>l. fst (select_from_backends e bs) = Inr (Some l, b) \<and>
             fst (select_known_backend e b) = Inr (Some l)"
  using assms
proof (induction bs)
  case Nil
  then show ?case by simp
next
  case (Cons c bs)
  obtain r evs where k: "select_known_backend e c = (r, evs)"
    by (cases "select_known_backend e c")
  obtain r' evs' where f: "select_from_backends e bs = (r', evs')"
    by (cases "select_from_backends e bs")
  show ?case
  proof (cases "loads e c")
    case True
    with Cons.prems have "b = c" by simp
    with loads_selected [OF True] k show ?thesis by auto
  next
    case False
    with Cons.prems have fb: "find (loads e) bs = Some b" by simp
    then have n: "bs \<noteq> []" by auto
    with Cons.prems have g: "guarded c" and p: "set (butlast bs) \<subseteq> Collect guarded"
      by auto
    from guarded_unavailable [OF g False] k have "r = Inr None" by simp
    with Cons.IH [OF p fb] k f show ?thesis by simp
  qed
qed

lemma spec_candidates_guarded:
  "set (butlast (spec_candidates p t)) \<subseteq> Collect guarded"
  by (simp add: spec_candidates_def guarded_def startswith_def)

lemma select_for_mode_named:
  assumes "t = ''tbb'' \<or> t = ''omp'' \<or> t = ''workqueue''"
  shows "snd (select_for_mode e t) = snd (select_from_backends e [t]) \<and>
         ((\<exists>r. fst (select_for_mode e t) = Inr (Some l, b, r)) \<longleftrightarrow>
          fst (select_from_backends e [t]) = Inr (Some l, b))"
proof -
  obtain r evs where k: "select_known_backend e t = (r, evs)"
    by (cases "select_known_backend e t")
  from assms have n: "t \<in> set namedbackends" by (auto simp: namedbackends_def)
  show ?thesis
    by (cases r) (auto simp: select_for_mode_def n k split: option.splits)
qed

lemma from_case_shape:
  "snd (case p of (Inl err, evs) \<Rightarrow> (Inl err, evs)
        | (Inr (l, libname), evs) \<Rightarrow> (Inr (l, libname, req), evs)) = snd p \<and>
   ((\<exists>q. fst (case p of (Inl err, evs) \<Rightarrow> (Inl err, evs)
              | (Inr (l, libname), evs) \<Rightarrow> (Inr (l, libname, req), evs)) =
         Inr (Some l', b, q)) \<longleftrightarrow>
    fst p = Inr (Some l', b))"
proof -
  obtain r evs where p: "p = (r, evs)" by (cases p)
  show ?thesis unfolding p by (cases r) auto
qed

lemma select_for_mode_safe:
  "select_for_mode e ''safe'' =
     (case select_from_backends e (spec_candidates (platform e) ''safe'') of
        (Inl err, evs) \<Rightarrow> (Inl err, evs)
      | (Inr (l, libname), evs) \<Rightarrow> (Inr (l, libname, [''TBB'']), evs))"
  by (simp add: select_for_mode_def namedbackends_def spec_candidates_def
        del: select_from_backends.simps)

lemma select_for_mode_threadsafe:
  "select_for_mode e ''threadsafe'' =
     (case select_from_backends e (spec_candidates (platform e) ''threadsafe'') of
        (Inl err, evs) \<Rightarrow> (Inl err, evs)
      | (Inr (l, libname), evs) \<Rightarrow>
          (Inr (l, libname, ''TBB'' # (if platform e = OSX then [''OSX_OMP''] else [])), evs))"
  by (cases "platform e = OSX")
     (simp_all add: select_for_mode_def namedbackends_def spec_candidates_def IS_OSX_def
        del: select_from_backends.simps)

lemma select_for_mode_forksafe:
  "select_for_mode e ''forksafe'' =
     (case select_from_backends e (spec_candidates (platform e) ''forksafe'') of
        (Inl err, evs) \<Rightarrow> (Inl err, evs)
      | (Inr (l, libname), evs) \<Rightarrow>
          (Inr (l, libname, ''TBB'' # (if platform e = OSX then [''OSX_OMP''] else [])), evs))"
  by (cases "platform e")
     (simp_all add: select_for_mode_def namedbackends_def spec_candidates_def IS_OSX_def
        IS_LINUX_def del: select_from_backends.simps)

lemma select_for_mode_class:
  assumes "t = ''safe'' \<or> t = ''threadsafe'' \<or> t = ''forksafe''"
  shows "snd (select_for_mode e t) =
           snd (select_from_backends e (spec_candidates (platform e) t)) \<and>
         ((\<exists>r. fst (select_for_mode e t) = Inr (Some l, b, r)) \<longleftrightarrow>
          fst (select_from_backends e (spec_candidates (platform e) t)) = Inr (Some l, b))"
  using assms
  by (elim disjE)
     (simp_all only: select_for_mode_safe select_for_mode_threadsafe select_for_mode_forksafe
        from_case_shape simp_thms)

lemma select_for_mode_default:
  "snd (select_for_mode e ''default'') =
     snd (select_from_backends e (spec_candidates (platform e) ''default'')) \<and>
   ((\<exists>r. fst (select_for_mode e ''default'') = Inr (Some l, b, r)) \<longleftrightarrow>
    fst (select_from_backends e (spec_candidates (platform e) ''default'')) = Inr (Some l, b))"
proof -
  obtain r evs where f: "select_from_backends e namedbackends = (r, evs)"
    by (cases "select_from_backends e namedbackends")
  have n: "''default'' \<notin> set namedbackends" by (simp add: namedbackends_def)
  have c: "''default'' \<notin> set [''threadsafe'', ''forksafe'', ''safe'']" by simp
  have s: "spec_candidates (platform e) ''default'' = namedbackends"
    by (simp add: spec_candidates_def namedbackends_def)
  have m: "select_for_mode e ''default'' =
        (case select_from_backends e namedbackends of
           (Inl err, evs) \<Rightarrow> (Inl err, evs)
         | (Inr (l, libname), evs) \<Rightarrow>
             (Inr (l, libname,
                   if l = None then
                     [''TBB''] @ (if IS_OSX (platform e) then [''OSX_OMP''] else [])
                   else []), evs))"
    unfolding select_for_mode_def using n c by (simp only: if_False if_True refl)
  show ?thesis
    unfolding m s f by (cases r) auto
qed

lemma known_modes_cases:
  assumes "t \<in> set known_modes"
  obtains "t = ''tbb''" | "t = ''omp''" | "t = ''workqueue''" | "t = ''threadsafe''"
    | "t = ''forksafe''" | "t = ''safe''" | "t = ''default''"
proof -
  from assms have
    "t = ''tbb'' \<or> t = ''omp'' \<or> t = ''workqueue'' \<or> t = ''threadsafe'' \<or>
     t = ''forksafe'' \<or> t = ''safe'' \<or> t = ''default''"
    unfolding known_modes_def by (simp only: set_simps insert_iff empty_iff simp_thms)
  then show thesis
    by (elim disjE) (erule that)+
qed

lemma spec_candidates_named:
  "spec_candidates p ''tbb'' = [''tbb'']"
  "spec_candidates p ''omp'' = [''omp'']"
  "spec_candidates p ''workqueue'' = [''workqueue'']"
  by (simp_all add: spec_candidates_def)

lemma select_for_mode_refines:
  assumes "t \<in> set known_modes"
  shows "snd (select_for_mode e t) =
           snd (select_from_backends e (spec_candidates (platform e) t)) \<and>
         ((\<exists>r. fst (select_for_mode e t) = Inr (Some l, b, r)) \<longleftrightarrow>
          fst (select_from_backends e (spec_candidates (platform e) t)) = Inr (Some l, b))"
  using assms
proof (cases rule: known_modes_cases)
  case 1
  with select_for_mode_named [of t e l b] show ?thesis
    by (simp only: spec_candidates_named simp_thms)
next
  case 2
  with select_for_mode_named [of t e l b] show ?thesis
    by (simp only: spec_candidates_named simp_thms)
next
  case 3
  with select_for_mode_named [of t e l b] show ?thesis
    by (simp only: spec_candidates_named simp_thms)
next
  case 4
  with select_for_mode_class [of t e l b] show ?thesis by (simp only: simp_thms)
next
  case 5
  with select_for_mode_class [of t e l b] show ?thesis by (simp only: simp_thms)
next
  case 6
  with select_for_mode_class [of t e l b] show ?thesis by (simp only: simp_thms)
next
  case 7
  with select_for_mode_default [of e l b] show ?thesis by (simp only:)
qed

text \<open>
  C3. For each of the seven modes the candidates are those of \<open>spec_candidates\<close>, in
  that order: default tries tbb, omp, workqueue; safe tries tbb; threadsafe tries tbb, omp;
  forksafe tries tbb, then omp unless the platform is Linux, then workqueue; a backend name
  tries that backend. The selection performs the load attempts of the candidates in order up
  to and including the first that loads, and no others; when a candidate loads, the first
  such candidate is the one selected, and, in an imported module, if the launch does not
  raise, its name is what \<open>threading_layer()\<close> reports afterwards.
\<close>

theorem selection_order:
  assumes "t \<in> set known_modes"
  shows "snd (select_for_mode e t) =
           concat (map (\<lambda>b. snd (select_known_backend e b))
                       (tried e (spec_candidates (platform e) t))) \<and>
         (find (loads e) (spec_candidates (platform e) t) = Some b \<longrightarrow>
            (\<exists>l r. fst (select_for_mode e t) = Inr (Some l, b, r) \<and>
                   fst (select_known_backend e b) = Inr (Some l))) \<and>
         (find (loads e) (spec_candidates (platform e) t) = Some b \<and>
          \<not> is_initialized s \<and> parfor_load_late_defined s \<and>
          lower (THREADING_LAYER e) = t \<and> (\<forall>l. \<not> launch_raises e l) \<longrightarrow>
            fst (launch_threads e s) = Inr () \<and>
            threading_layer (snd (launch_threads e s)) = Inr b)"
proof -
  let ?cands = "spec_candidates (platform e) t"
  have g: "set (butlast ?cands) \<subseteq> Collect guarded" by (rule spec_candidates_guarded)
  have ev: "snd (select_for_mode e t) = snd (select_from_backends e ?cands)"
    using select_for_mode_refines [OF assms, of e] by simp
  have sel: "\<exists>l r. fst (select_for_mode e t) = Inr (Some l, b, r) \<and>
                   fst (select_known_backend e b) = Inr (Some l)"
    if f: "find (loads e) ?cands = Some b"
  proof -
    from select_from_backends_first [OF g f] obtain l where
      l: "fst (select_from_backends e ?cands) = Inr (Some l, b)"
      "fst (select_known_backend e b) = Inr (Some l)" by blast
    from l(1) select_for_mode_refines [OF assms, of e l b]
    obtain r where "fst (select_for_mode e t) = Inr (Some l, b, r)" by blast
    with l(2) show ?thesis by blast
  qed
  have run: "fst (launch_threads e s) = Inr () \<and>
             threading_layer (snd (launch_threads e s)) = Inr b"
    if f: "find (loads e) ?cands = Some b" and u: "\<not> is_initialized s"
      and d: "parfor_load_late_defined s"
      and t: "lower (THREADING_LAYER e) = t" and n: "\<forall>l. \<not> launch_raises e l"
  proof -
    from sel [OF f] obtain l r where "fst (select_for_mode e t) = Inr (Some l, b, r)" by blast
    with t have "fst (select_for_mode e (lower (THREADING_LAYER e))) = Inr (Some l, b, r)"
      by simp
    from launch_selected [OF u d this] n show ?thesis by blast
  qed
  have a: "snd (select_for_mode e t) =
             concat (map (\<lambda>b. snd (select_known_backend e b)) (tried e ?cands))"
    using ev select_from_backends_tried [OF g, of e] by simp
  show ?thesis
  proof (intro conjI impI)
    show "snd (select_for_mode e t) =
            concat (map (\<lambda>b. snd (select_known_backend e b)) (tried e ?cands))"
      by (rule a)
  next
    assume "find (loads e) ?cands = Some b"
    then show "\<exists>l r. fst (select_for_mode e t) = Inr (Some l, b, r) \<and>
                     fst (select_known_backend e b) = Inr (Some l)"
      by (rule sel)
  next
    assume "find (loads e) ?cands = Some b \<and> \<not> is_initialized s \<and>
            parfor_load_late_defined s \<and>
            lower (THREADING_LAYER e) = t \<and> (\<forall>l. \<not> launch_raises e l)"
    with run show "fst (launch_threads e s) = Inr ()" by blast
  next
    assume "find (loads e) ?cands = Some b \<and> \<not> is_initialized s \<and>
            parfor_load_late_defined s \<and>
            lower (THREADING_LAYER e) = t \<and> (\<forall>l. \<not> launch_raises e l)"
    with run show "threading_layer (snd (launch_threads e s)) = Inr b" by blast
  qed
qed

lemma loads_example:
  "\<not> loads env_example ''tbb''" "\<not> loads env_example ''omp''" "loads env_example ''workqueue''"
  "\<not> loads env_forksafe ''tbb''" "loads env_forksafe ''omp''" "loads env_forksafe ''workqueue''"
  by (simp_all add: loads_def select_known_backend_def check_tbb_version_compatible_def
        startswith_def IS_OSX_def IS_LINUX_def IS_WINDOWS_def env_example_def env_forksafe_def)

theorem selection_order_witness:
  "''default'' \<in> set known_modes \<and>
   spec_candidates (platform env_example) ''default'' = [''tbb'', ''omp'', ''workqueue''] \<and>
   tried env_example [''tbb'', ''omp'', ''workqueue''] = [''tbb'', ''omp'', ''workqueue''] \<and>
   snd (select_for_mode env_example ''default'') =
     [CDLL ''libtbb.so.2'', Warn (tbb_msg ''11004''), Import omppool, Import workqueue] \<and>
   find (loads env_example) [''tbb'', ''omp'', ''workqueue''] = Some ''workqueue'' \<and>
   threading_layer (snd (launch_threads env_example initial_state)) = Inr ''workqueue'' \<and>
   ''forksafe'' \<in> set known_modes \<and>
   spec_candidates (platform env_forksafe) ''forksafe'' = [''tbb'', ''workqueue''] \<and>
   find (loads env_forksafe) [''tbb'', ''workqueue''] = Some ''workqueue'' \<and>
   threading_layer (snd (launch_threads env_forksafe initial_state)) = Inr ''workqueue''"
proof -
  have c: "spec_candidates (platform env_example) ''default'' = [''tbb'', ''omp'', ''workqueue'']"
    "spec_candidates (platform env_forksafe) ''forksafe'' = [''tbb'', ''workqueue'']"
    by (simp_all add: spec_candidates_def env_example_def env_forksafe_def)
  have k: "''default'' \<in> set known_modes" "''forksafe'' \<in> set known_modes"
    by (simp_all add: known_modes_def)
  have e: "\<not> is_initialized initial_state" "parfor_load_late_defined initial_state"
    "\<forall>l. \<not> launch_raises env_example l"
    "\<forall>l. \<not> launch_raises env_forksafe l"
    "lower (THREADING_LAYER env_example) = ''default''"
    "lower (THREADING_LAYER env_forksafe) = ''forksafe''"
    by (simp_all add: initial_state_def env_example_def env_forksafe_def lower_def lower_char_def)
  have q: "snd (select_known_backend env_example ''tbb'') =
             [CDLL ''libtbb.so.2'', Warn (tbb_msg ''11004'')]"
    "snd (select_known_backend env_example ''omp'') = [Import omppool]"
    "snd (select_known_backend env_example ''workqueue'') = [Import workqueue]"
    by (simp_all add: select_known_backend_def check_tbb_version_compatible_def
        startswith_def IS_OSX_def IS_LINUX_def IS_WINDOWS_def env_example_def str_int_11004)
  show ?thesis
    using selection_order [OF k(1), of env_example "''workqueue''" initial_state]
      selection_order [OF k(2), of env_forksafe "''workqueue''" initial_state]
    by (simp add: c k e q loads_example)
qed

section \<open>Candidates that fail to load\<close>

lemma old_tbb_unavailable:
  assumes "platform e \<noteq> OtherOS" and "tbb_runtime e = Inr v" and "sint v < 11005"
  shows "fst (select_known_backend e ''tbb'') = Inr None \<and>
         Warn (tbb_msg (str_int (sint v))) \<in> set (snd (select_known_backend e ''tbb''))"
  using assms
  by (cases "platform e")
     (simp_all add: select_known_backend_def check_tbb_version_compatible_def startswith_def
        IS_OSX_def IS_LINUX_def IS_WINDOWS_def)

lemma guarded_proceeds:
  assumes "guarded b" and "\<not> loads e b"
  shows "select_from_backends e (b # bs) =
           (fst (select_from_backends e bs),
            snd (select_known_backend e b) @ snd (select_from_backends e bs))"
proof -
  obtain r evs where k: "select_known_backend e b = (r, evs)"
    by (cases "select_known_backend e b")
  with guarded_unavailable [OF assms] have "r = Inr None" by simp
  with k show ?thesis by (simp split: prod.splits)
qed

text \<open>
  C4. In a process where no backend module can be imported, the tbb candidate (with a TBB
  runtime of interface version 11004, below 11005) gives a warning and counts as
  unavailable, and so does the omp candidate; the workqueue candidate does not: its failed
  import leaves \<open>select_known_backend\<close> as an \<open>ImportError\<close>, which ends
  \<open>select_from_backends\<close> with that error instead of the result "no backend".
\<close>

theorem workqueue_import_failure_is_fatal:
  "\<not> loads env_nothing ''tbb'' \<and> \<not> loads env_nothing ''omp'' \<and>
   \<not> loads env_nothing ''workqueue'' \<and>
   select_known_backend env_nothing ''tbb'' =
     (Inr None, [CDLL ''libtbb.so.2'', Warn (tbb_msg ''11004'')]) \<and>
   select_known_backend env_nothing ''omp'' = (Inr None, [Import omppool]) \<and>
   select_known_backend env_nothing ''workqueue'' =
     (Inl (ImportError ''cannot import name workqueue from numba.np.ufunc''),
      [Import workqueue]) \<and>
   fst (select_from_backends env_nothing [''tbb'', ''omp'', ''workqueue'']) =
     Inl (ImportError ''cannot import name workqueue from numba.np.ufunc'') \<and>
   fst (select_from_backends env_nothing [''tbb'', ''omp'']) = Inr (None, [])"
  by (simp add: loads_def select_known_backend_def check_tbb_version_compatible_def
        startswith_def IS_OSX_def IS_LINUX_def IS_WINDOWS_def example_defs str_int_11004)

section \<open>The error when nothing loads\<close>

lemma threadsafe_osx_hint:
  "fst (launch_threads env_threadsafe_osx initial_state) =
     Inl (ValueError
       (''No threading layer could be loaded.\<newline>HINT:\<newline>One of:\<newline>'' @
        ''Intel TBB is required, try:\<newline>$ conda/pip install tbb'' @
        ''\<newline>OR\<newline>'' @
        ''Intel OpenMP is required, try:\<newline>$ conda/pip install intel-openmp''))"
  by (simp add: model_defs example_defs env_threadsafe_osx_def raise_with_hint_def
        err_helpers_def errmsg_def hintmsg_def)

text \<open>
  C5. In mode default, in a process where no backend module can be imported, the call
  fails with the \<open>ImportError\<close> of the workqueue import. The requirements that the default
  branch collects for this case, the TBB hint, are never reached: \<open>raise_with_hint\<close> on
  them would give the \<open>ValueError\<close> with that hint.
\<close>

theorem default_mode_nothing_loads:
  "lower (THREADING_LAYER env_nothing) = ''default'' \<and>
   find (loads env_nothing) (spec_candidates (platform env_nothing) ''default'') = None \<and>
   fst (launch_threads env_nothing initial_state) =
     Inl (ImportError ''cannot import name workqueue from numba.np.ufunc'') \<and>
   raise_with_hint [''TBB''] =
     ValueError (''No threading layer could be loaded.\<newline>HINT:\<newline>'' @
                 ''Intel TBB is required, try:\<newline>$ conda/pip install tbb'')"
  by (simp add: model_defs example_defs raise_with_hint_def err_helpers_def errmsg_def
        hintmsg_def loads_def spec_candidates_def)

section \<open>The range partition\<close>

lemma upt_0_4: "[0..<4] = [0, 1, 2, 3::nat]"
  by (simp add: eval_nat_numeral)

lemma elements_ranges_from:
  "elements (ranges_from start ns) = [start..<start + sum_list ns]"
proof (induction ns arbitrary: start)
  case Nil
  show ?case by (simp add: elements_def)
next
  case (Cons n ns)
  have "[start..<start + (n + sum_list ns)] = [start..<start + n] @ [start + n..<start + n + sum_list ns]"
    using upt_add_eq_append [of start "start + n" "sum_list ns"] by (simp only: add.assoc le_add1)
  with Cons [of "start + n"] show ?case by (simp add: elements_def)
qed

lemma length_ranges_from: "length (ranges_from start ns) = length ns"
  by (induction ns arbitrary: start) simp_all

lemma nth_ranges_from:
  "i < length ns \<Longrightarrow>
     ranges_from start ns ! i =
       (start + sum_list (take i ns), start + sum_list (take i ns) + ns ! i)"
proof (induction ns arbitrary: start i)
  case Nil
  then show ?case by simp
next
  case (Cons n ns)
  show ?case
  proof (cases i)
    case 0
    then show ?thesis by simp
  next
    case (Suc j)
    with Cons.prems have "j < length ns" by simp
    from Cons.IH [OF this, of "start + n"] Suc show ?thesis by (simp add: add.assoc)
  qed
qed

lemma sum_range_sizes:
  "sum_list (map (range_size t k) [0..<m]) = m * (t div k) + min m (t mod k)"
  by (induction m) (auto simp: range_size_def min_def)

lemma sum_all_range_sizes:
  assumes "1 \<le> k"
  shows "sum_list (map (range_size t k) [0..<min k t]) = t"
proof (cases "k \<le> t")
  case True
  from assms have "t mod k < k" by simp
  with True have "min k t * (t div k) + min (min k t) (t mod k) = k * (t div k) + t mod k"
    by (simp add: min_def)
  then show ?thesis by (simp add: sum_range_sizes)
next
  case False
  then have "t div k = 0" "t mod k = t" "min k t = t" by simp_all
  then show ?thesis by (simp add: sum_range_sizes)
qed

lemma range_size_positive:
  assumes "1 \<le> k" and "i < min k t"
  shows "0 < range_size t k i"
proof (cases "k \<le> t")
  case True
  with assms have "0 < t div k" by (simp add: div_greater_zero_iff)
  then show ?thesis by (simp add: range_size_def)
next
  case False
  with assms have "i < t mod k" by simp
  then show ?thesis by (simp add: range_size_def)
qed

lemma range_size_mono:
  assumes "i \<le> j"
  shows "range_size t k j \<le> range_size t k i \<and> range_size t k i \<le> range_size t k j + 1"
  using assms by (simp add: range_size_def)

lemma length_schedule_ranges: "length (schedule_ranges t k) = min k t"
  by (simp add: schedule_ranges_def length_ranges_from)

lemma nth_schedule_ranges:
  assumes "i < min k t"
  shows "schedule_ranges t k ! i =
           (sum_list (map (range_size t k) [0..<i]),
            sum_list (map (range_size t k) [0..<i]) + range_size t k i)"
proof -
  from assms have "take i (map (range_size t k) [0..<min k t]) = map (range_size t k) [0..<i]"
    by (simp add: take_map take_upt)
  with assms show ?thesis
    by (simp add: schedule_ranges_def nth_ranges_from)
qed

text \<open>
  C9. For a thread count of at least 1, the ranges of the chunk-size-0 partition, read in
  order, enumerate 0, 1, ..., total_count - 1: each element once, in increasing order.
  There are min(thread_count, total_count) ranges (none when total_count is 0), each
  non-empty, each starting where the one before ends; of two ranges the earlier one is
  never shorter, and longer by at most one element. For 10 elements and 4 threads the
  ranges are [0,3), [3,6), [6,8), [8,10).
\<close>

theorem schedule_ranges_partition:
  assumes "1 \<le> thread_count"
  shows "elements (schedule_ranges total_count thread_count) = [0..<total_count] \<and>
         length (schedule_ranges total_count thread_count) = min thread_count total_count \<and>
         (\<forall>i. i < length (schedule_ranges total_count thread_count) \<longrightarrow>
              fst (schedule_ranges total_count thread_count ! i) <
              snd (schedule_ranges total_count thread_count ! i)) \<and>
         (\<forall>i. Suc i < length (schedule_ranges total_count thread_count) \<longrightarrow>
              snd (schedule_ranges total_count thread_count ! i) =
              fst (schedule_ranges total_count thread_count ! Suc i)) \<and>
         (\<forall>i j. i \<le> j \<and> j < length (schedule_ranges total_count thread_count) \<longrightarrow>
              range_len (schedule_ranges total_count thread_count ! j) \<le>
                range_len (schedule_ranges total_count thread_count ! i) \<and>
              range_len (schedule_ranges total_count thread_count ! i) \<le>
                range_len (schedule_ranges total_count thread_count ! j) + 1) \<and>
         schedule_ranges 10 4 = [(0, 3), (3, 6), (6, 8), (8, 10)]"
proof (intro conjI allI impI)
  show "elements (schedule_ranges total_count thread_count) = [0..<total_count]"
    using sum_all_range_sizes [OF assms, of total_count]
    by (simp add: schedule_ranges_def elements_ranges_from)
next
  show "length (schedule_ranges total_count thread_count) = min thread_count total_count"
    by (rule length_schedule_ranges)
next
  fix i assume "i < length (schedule_ranges total_count thread_count)"
  then have i: "i < min thread_count total_count" by (simp add: length_schedule_ranges)
  from range_size_positive [OF assms i] show
    "fst (schedule_ranges total_count thread_count ! i) <
     snd (schedule_ranges total_count thread_count ! i)"
    by (simp add: nth_schedule_ranges [OF i])
next
  fix i assume "Suc i < length (schedule_ranges total_count thread_count)"
  then have s: "Suc i < min thread_count total_count" by (simp add: length_schedule_ranges)
  then have i: "i < min thread_count total_count" by simp
  show "snd (schedule_ranges total_count thread_count ! i) =
        fst (schedule_ranges total_count thread_count ! Suc i)"
    by (simp add: nth_schedule_ranges [OF i] nth_schedule_ranges [OF s])
next
  fix i j
  assume "i \<le> j \<and> j < length (schedule_ranges total_count thread_count)"
  then have l: "i \<le> j" and j: "j < min thread_count total_count"
    by (simp_all add: length_schedule_ranges)
  then have i: "i < min thread_count total_count" by simp
  from range_size_mono [OF l, of total_count thread_count]
  show "range_len (schedule_ranges total_count thread_count ! j) \<le>
        range_len (schedule_ranges total_count thread_count ! i)"
    by (simp add: range_len_def nth_schedule_ranges [OF i] nth_schedule_ranges [OF j])
  from range_size_mono [OF l, of total_count thread_count]
  show "range_len (schedule_ranges total_count thread_count ! i) \<le>
        range_len (schedule_ranges total_count thread_count ! j) + 1"
    by (simp add: range_len_def nth_schedule_ranges [OF i] nth_schedule_ranges [OF j])
next
  show "schedule_ranges 10 4 = [(0, 3), (3, 6), (6, 8), (8, 10)]"
    by (simp add: schedule_ranges_def range_size_def upt_0_4)
qed

theorem schedule_ranges_partition_witness:
  "(1::nat) \<le> 4 \<and>
   elements (schedule_ranges 10 4) = [0..<10] \<and>
   length (schedule_ranges 10 4) = 4 \<and>
   schedule_ranges 10 4 = [(0, 3), (3, 6), (6, 8), (8, 10)] \<and>
   elements (schedule_ranges 0 4) = [] \<and>
   length (schedule_ranges 0 4) = 0"
proof -
  have h: "(1::nat) \<le> 4" by simp
  from schedule_ranges_partition [OF h, of 10] schedule_ranges_partition [OF h, of 0]
  show ?thesis by (simp add: elements_def)
qed

section \<open>The errors of initialization\<close>

lemma select_known_backend_errors:
  assumes "fst (select_known_backend e b) = Inl err"
  shows "(\<exists>m. err = ImportError m) \<or> (\<exists>m. err = ValueError (CHR ''U'' # m))"
proof -
  obtain r evs where c: "check_tbb_version_compatible e = (r, evs)"
    by (cases "check_tbb_version_compatible e")
  with check_tbb_error [of e] have "r = Inr () \<or> (\<exists>m. r = Inl (ImportError m))" by simp
  with assms c show ?thesis
    by (auto simp: select_known_backend_def split: if_splits)
qed

lemma select_from_backends_errors:
  assumes "fst (select_from_backends e bs) = Inl err"
  shows "(\<exists>m. err = ImportError m) \<or> (\<exists>m. err = ValueError (CHR ''U'' # m))"
  using assms
proof (induction bs)
  case Nil
  then show ?case by simp
next
  case (Cons b bs)
  obtain r evs where k: "select_known_backend e b = (r, evs)"
    by (cases "select_known_backend e b")
  obtain r' evs' where f: "select_from_backends e bs = (r', evs')"
    by (cases "select_from_backends e bs")
  show ?case
  proof (cases r)
    case (Inl err')
    with Cons.prems k have "err' = err" by simp
    with Inl k select_known_backend_errors [of e b err] show ?thesis by simp
  next
    case (Inr lo)
    show ?thesis
    proof (cases lo)
      case None
      with Inr k f Cons.prems have "fst (select_from_backends e bs) = Inl err" by simp
      then show ?thesis by (rule Cons.IH)
    next
      case (Some l)
      with Inr k Cons.prems show ?thesis by simp
    qed
  qed
qed

lemma from_case_error:
  "fst (case p of (Inl err, evs) \<Rightarrow> (Inl err, evs)
        | (Inr (l, libname), evs) \<Rightarrow> (Inr (g l libname), evs)) = Inl err' \<longleftrightarrow>
   fst p = Inl err'"
proof -
  obtain r evs where p: "p = (r, evs)" by (cases p)
  show ?thesis unfolding p by (cases r) auto
qed

lemma select_for_mode_default_eq:
  "select_for_mode e ''default'' =
     (case select_from_backends e namedbackends of
        (Inl err, evs) \<Rightarrow> (Inl err, evs)
      | (Inr (l, libname), evs) \<Rightarrow>
          (Inr (l, libname,
                if l = None then
                  [''TBB''] @ (if IS_OSX (platform e) then [''OSX_OMP''] else [])
                else []), evs))"
proof -
  have n: "''default'' \<notin> set namedbackends" by (simp add: namedbackends_def)
  have c: "''default'' \<notin> set [''threadsafe'', ''forksafe'', ''safe'']" by simp
  show ?thesis
    unfolding select_for_mode_def using n c by (simp only: if_False if_True refl)
qed

lemma select_for_mode_unknown:
  assumes "t \<notin> set known_modes"
  shows "select_for_mode e t = (Inl (ValueError (unknown_layer_msg t)), [])"
proof -
  from assms have "t \<notin> set namedbackends" "t \<notin> set [''threadsafe'', ''forksafe'', ''safe'']"
    "t \<noteq> ''default''"
    unfolding known_modes_def namedbackends_def
    by (simp_all only: set_simps insert_iff empty_iff simp_thms de_Morgan_disj)
  then show ?thesis
    unfolding select_for_mode_def by (simp only: if_False)
qed

lemma select_for_mode_errors:
  assumes "fst (select_for_mode e t) = Inl err"
  shows "(\<exists>m. err = ImportError m) \<or> (\<exists>m. err = ValueError (CHR ''U'' # m)) \<or>
         (t \<notin> set known_modes \<and> err = ValueError (unknown_layer_msg t))"
proof (cases "t \<in> set known_modes")
  case False
  with assms select_for_mode_unknown [OF False, of e] show ?thesis by simp
next
  case True
  have "(\<exists>m. err = ImportError m) \<or> (\<exists>m. err = ValueError (CHR ''U'' # m))"
    using True
  proof (cases rule: known_modes_cases)
    case 1
    obtain r evs where k: "select_known_backend e ''tbb'' = (r, evs)"
      by (cases "select_known_backend e ''tbb''")
    from assms have "fst (select_known_backend e ''tbb'') = Inl err"
      unfolding 1 by (cases r) (simp_all add: select_for_mode_def namedbackends_def k)
    then show ?thesis by (rule select_known_backend_errors)
  next
    case 2
    obtain r evs where k: "select_known_backend e ''omp'' = (r, evs)"
      by (cases "select_known_backend e ''omp''")
    from assms have "fst (select_known_backend e ''omp'') = Inl err"
      unfolding 2 by (cases r) (simp_all add: select_for_mode_def namedbackends_def k)
    then show ?thesis by (rule select_known_backend_errors)
  next
    case 3
    obtain r evs where k: "select_known_backend e ''workqueue'' = (r, evs)"
      by (cases "select_known_backend e ''workqueue''")
    from assms have "fst (select_known_backend e ''workqueue'') = Inl err"
      unfolding 3 by (cases r) (simp_all add: select_for_mode_def namedbackends_def k)
    then show ?thesis by (rule select_known_backend_errors)
  next
    case 4
    from assms have
      "fst (select_from_backends e (spec_candidates (platform e) ''threadsafe'')) = Inl err"
      unfolding 4 by (simp only: select_for_mode_threadsafe from_case_error)
    then show ?thesis by (rule select_from_backends_errors)
  next
    case 5
    from assms have
      "fst (select_from_backends e (spec_candidates (platform e) ''forksafe'')) = Inl err"
      unfolding 5 by (simp only: select_for_mode_forksafe from_case_error)
    then show ?thesis by (rule select_from_backends_errors)
  next
    case 6
    from assms have
      "fst (select_from_backends e (spec_candidates (platform e) ''safe'')) = Inl err"
      unfolding 6 by (simp only: select_for_mode_safe from_case_error)
    then show ?thesis by (rule select_from_backends_errors)
  next
    case 7
    from assms have "fst (select_from_backends e namedbackends) = Inl err"
      unfolding 7 by (simp only: select_for_mode_default_eq from_case_error)
    then show ?thesis by (rule select_from_backends_errors)
  qed
  then show ?thesis by blast
qed

lemma lookup_all_errors: "lookup_all xs = Inl err \<Longrightarrow> \<exists>m. err = KeyError m"
  by (induction xs arbitrary: err) (auto split: option.splits sum.splits)

lemma raise_with_hint_errors:
  "(\<exists>m. raise_with_hint required = ValueError (CHR ''N'' # m)) \<or>
   (\<exists>m. raise_with_hint required = KeyError m)"
proof (cases "lookup_all required")
  case (Inl err)
  with lookup_all_errors [OF Inl] show ?thesis
    by (auto simp: raise_with_hint_def errmsg_def split: option.splits)
next
  case (Inr hs)
  then show ?thesis
    by (auto simp: raise_with_hint_def errmsg_def split: option.splits)
qed

lemma launch_threads_errors:
  assumes "fst (launch_threads e s) = Inl err"
  shows "(\<exists>m. err = ImportError m) \<or> (\<exists>m. err = ValueError (CHR ''U'' # m)) \<or>
         (\<exists>m. err = ValueError (CHR ''N'' # m)) \<or> (\<exists>m. err = KeyError m) \<or>
         err = BackendError ''launch_threads'' \<or> err = NameError ''parfor_load_late'' \<or>
         (lower (THREADING_LAYER e) \<notin> set known_modes \<and>
          err = ValueError (unknown_layer_msg (lower (THREADING_LAYER e))))"
proof (cases "is_initialized s")
  case True
  with assms show ?thesis by (simp add: launch_threads_ready)
next
  case False
  show ?thesis
  proof (rule launch_threads_cases [OF False, of e], goal_cases)
    case (1 err' evs)
    with assms have "fst (select_for_mode e (lower (THREADING_LAYER e))) = Inl err" by simp
    from select_for_mode_errors [OF this] show ?case by blast
  next
    case (2 libname requirements evs)
    with assms have "err = raise_with_hint requirements" by simp
    with raise_with_hint_errors [of requirements] show ?case by auto
  next
    case (3 l libname requirements evs)
    with assms show ?case by simp
  next
    case (4 l libname requirements evs)
    with assms show ?case by simp
  next
    case (5 l libname requirements evs)
    with assms show ?case by simp
  qed
qed

section \<open>Case-insensitive modes\<close>

lemma upper_bit5:
  fixes n :: nat
  assumes "n = of_char (Char b0 b1 b2 b3 b4 b5 b6 b7)"
    and "(65 \<le> n \<and> n \<le> 90) \<or> (192 \<le> n \<and> n \<le> 222 \<and> n \<noteq> 215)"
  shows "\<not> b5"
  using assms by (cases b5; cases b6; cases b7; cases b4; cases b3; cases b2; cases b1; cases b0; simp)

lemma lower_char_other:
  assumes "\<not> ((65 \<le> (of_char c :: nat) \<and> (of_char c :: nat) \<le> 90) \<or>
              (192 \<le> (of_char c :: nat) \<and> (of_char c :: nat) \<le> 222 \<and>
               (of_char c :: nat) \<noteq> 215))"
  shows "lower_char c = c"
  using assms unfolding lower_char_def Let_def by (simp only: if_False)

lemma lower_char_upper:
  assumes "(65 \<le> (of_char c :: nat) \<and> (of_char c :: nat) \<le> 90) \<or>
           (192 \<le> (of_char c :: nat) \<and> (of_char c :: nat) \<le> 222 \<and>
            (of_char c :: nat) \<noteq> 215)"
  shows "(of_char (lower_char c) :: nat) = of_char c + 32"
proof (cases c)
  case (Char b0 b1 b2 b3 b4 b5 b6 b7)
  with upper_bit5 [of "of_char c" b0 b1 b2 b3 b4 b5 b6 b7] assms have b: "\<not> b5" by blast
  from assms have "lower_char c =
      (case c of Char b0 b1 b2 b3 b4 b5 b6 b7 \<Rightarrow> Char b0 b1 b2 b3 b4 True b6 b7)"
    unfolding lower_char_def Let_def by (simp only: if_True)
  with Char b show ?thesis by simp
qed

lemma lower_char_idem: "lower_char (lower_char c) = lower_char c"
proof (cases "(65 \<le> (of_char c :: nat) \<and> (of_char c :: nat) \<le> 90) \<or>
              (192 \<le> (of_char c :: nat) \<and> (of_char c :: nat) \<le> 222 \<and>
               (of_char c :: nat) \<noteq> 215)")
  case False
  from lower_char_other [OF False] show ?thesis by simp
next
  case True
  from lower_char_upper [OF True] True show ?thesis
    by (intro lower_char_other) arith
qed

lemma lower_idem: "lower (lower s) = lower s"
  by (simp add: lower_def lower_char_idem)

lemma fields_layer:
  "platform (e\<lparr>THREADING_LAYER := x\<rparr>) = platform e"
  "NUMBA_NUM_THREADS (e\<lparr>THREADING_LAYER := x\<rparr>) = NUMBA_NUM_THREADS e"
  "launch_raises (e\<lparr>THREADING_LAYER := x\<rparr>) = launch_raises e"
  "THREADING_LAYER (e\<lparr>THREADING_LAYER := x\<rparr>) = x"
  by simp_all

lemma check_tbb_layer:
  "check_tbb_version_compatible (e\<lparr>THREADING_LAYER := x\<rparr>) = check_tbb_version_compatible e"
  by (simp add: check_tbb_version_compatible_def)

lemma select_known_backend_layer:
  "select_known_backend (e\<lparr>THREADING_LAYER := x\<rparr>) b = select_known_backend e b"
  by (simp add: select_known_backend_def check_tbb_layer
        cong: prod.case_cong sum.case_cong error.case_cong)

lemma select_from_backends_layer:
  "select_from_backends (e\<lparr>THREADING_LAYER := x\<rparr>) bs = select_from_backends e bs"
  by (induction bs)
     (simp_all add: select_known_backend_layer
        cong: prod.case_cong sum.case_cong option.case_cong)

lemma select_for_mode_layer:
  "select_for_mode (e\<lparr>THREADING_LAYER := x\<rparr>) t = select_for_mode e t"
  unfolding select_for_mode_def
  by (simp only: select_known_backend_layer select_from_backends_layer fields_layer
        cong: prod.case_cong sum.case_cong option.case_cong if_cong)

lemma launch_threads_layer:
  assumes "lower x = lower (THREADING_LAYER e)"
  shows "launch_threads (e\<lparr>THREADING_LAYER := x\<rparr>) s = launch_threads e s"
  unfolding launch_threads_def load_num_threads_funcs_def Let_def
  by (simp only: select_for_mode_layer fields_layer assms
        cong: prod.case_cong sum.case_cong option.case_cong if_cong)

lemma unknown_layer_msg_T: "unknown_layer_msg t = CHR ''T'' # tl (unknown_layer_msg t)"
  by (simp add: unknown_layer_msg_def)

text \<open>
  C10. \<open>_launch_threads\<close> reads the configured mode only through its lower-case form:
  two configurations with the same lower-case mode behave alike, so a mode behaves as its
  lower-case form does. In an uninitialized process the call raises the
  unknown-threading-layer \<open>ValueError\<close> exactly when the lower-case form is none of tbb,
  omp, workqueue, threadsafe, forksafe, safe, default, and the message then names the
  lower-case form.
\<close>

theorem mode_is_case_insensitive:
  "(lower x = lower (THREADING_LAYER e) \<longrightarrow>
      launch_threads (e\<lparr>THREADING_LAYER := x\<rparr>) s = launch_threads e s) \<and>
   launch_threads (e\<lparr>THREADING_LAYER := lower (THREADING_LAYER e)\<rparr>) s = launch_threads e s \<and>
   (\<not> is_initialized s \<longrightarrow>
      ((\<exists>m. fst (launch_threads e s) = Inl (ValueError (unknown_layer_msg m))) \<longleftrightarrow>
       lower (THREADING_LAYER e) \<notin> set known_modes) \<and>
      (lower (THREADING_LAYER e) \<notin> set known_modes \<longrightarrow>
       fst (launch_threads e s) =
         Inl (ValueError (unknown_layer_msg (lower (THREADING_LAYER e))))))"
proof (intro conjI impI)
  assume "lower x = lower (THREADING_LAYER e)"
  then show "launch_threads (e\<lparr>THREADING_LAYER := x\<rparr>) s = launch_threads e s"
    by (rule launch_threads_layer)
next
  show "launch_threads (e\<lparr>THREADING_LAYER := lower (THREADING_LAYER e)\<rparr>) s =
        launch_threads e s"
    by (rule launch_threads_layer) (rule lower_idem)
next
  assume u: "\<not> is_initialized s"
  have unknown: "fst (launch_threads e s) =
                   Inl (ValueError (unknown_layer_msg (lower (THREADING_LAYER e))))"
    if n: "lower (THREADING_LAYER e) \<notin> set known_modes"
    using select_for_mode_unknown [OF n, of e]
    by (rule_tac launch_threads_cases [OF u, of e]) simp_all
  show "(\<exists>m. fst (launch_threads e s) = Inl (ValueError (unknown_layer_msg m))) \<longleftrightarrow>
        lower (THREADING_LAYER e) \<notin> set known_modes"
  proof
    assume "\<exists>m. fst (launch_threads e s) = Inl (ValueError (unknown_layer_msg m))"
    then obtain m where m: "fst (launch_threads e s) = Inl (ValueError (unknown_layer_msg m))"
      by blast
    from launch_threads_errors [OF m] unknown_layer_msg_T [of m]
    show "lower (THREADING_LAYER e) \<notin> set known_modes"
      by (elim disjE exE conjE) simp_all
  next
    assume "lower (THREADING_LAYER e) \<notin> set known_modes"
    from unknown [OF this] show
      "\<exists>m. fst (launch_threads e s) = Inl (ValueError (unknown_layer_msg m))"
      by blast
  qed
  assume "lower (THREADING_LAYER e) \<notin> set known_modes"
  then show "fst (launch_threads e s) =
               Inl (ValueError (unknown_layer_msg (lower (THREADING_LAYER e))))"
    by (rule unknown)
qed

theorem mode_is_case_insensitive_witness:
  "lower ''default'' = lower (THREADING_LAYER env_example) \<and>
   THREADING_LAYER env_example = ''Default'' \<and>
   launch_threads (env_example\<lparr>THREADING_LAYER := ''default''\<rparr>) initial_state =
     launch_threads env_example initial_state \<and>
   \<not> is_initialized initial_state \<and>
   THREADING_LAYER env_unknown = ''Fast'' \<and>
   lower (THREADING_LAYER env_unknown) \<notin> set known_modes \<and>
   fst (launch_threads env_unknown initial_state) =
     Inl (ValueError (unknown_layer_msg ''fast''))"
proof -
  have t: "THREADING_LAYER env_example = ''Default''" "THREADING_LAYER env_unknown = ''Fast''"
    by (simp_all add: env_example_def env_unknown_def)
  have l: "lower ''default'' = ''default''" "lower ''Default'' = ''default''"
    "lower ''Fast'' = ''fast''"
    by (simp_all add: lower_def lower_char_def)
  have a: "lower ''default'' = lower (THREADING_LAYER env_example)"
    by (simp only: t l)
  have n: "lower (THREADING_LAYER env_unknown) \<notin> set known_modes"
    by (simp add: t l known_modes_def)
  have i: "\<not> is_initialized initial_state" by (simp add: initial_state_def)
  from mode_is_case_insensitive [of "''default''" env_example initial_state] a
  have 1: "launch_threads (env_example\<lparr>THREADING_LAYER := ''default''\<rparr>) initial_state =
           launch_threads env_example initial_state" by blast
  from mode_is_case_insensitive [of "''Fast''" env_unknown initial_state] i n
  have "fst (launch_threads env_unknown initial_state) =
          Inl (ValueError (unknown_layer_msg (lower (THREADING_LAYER env_unknown))))" by blast
  then have 2: "fst (launch_threads env_unknown initial_state) =
                  Inl (ValueError (unknown_layer_msg ''fast''))"
    by (simp only: t l)
  from a t 1 i n 2 show ?thesis by blast
qed

section \<open>Thread count and chunk size\<close>

lemma bound_when_ready_initial: "bound_when_ready initial_state"
  by (simp add: bound_when_ready_def initial_state_def)

lemma launch_threads_bound:
  assumes "bound_when_ready s" and "fst (launch_threads e s) = Inr ()"
  shows "\<exists>l l'. num_threads_funcs (snd (launch_threads e s)) = Some l \<and>
                parfor_funcs (snd (launch_threads e s)) = Some l'"
proof (cases "is_initialized s")
  case True
  with assms(1) show ?thesis
    by (auto simp: launch_threads_ready bound_when_ready_def)
next
  case False
  from assms(2) show ?thesis
    by (rule_tac launch_threads_cases [OF False, of e]) simp_all
qed

lemma launch_threads_not_runtime_error:
  "fst (launch_threads e s) \<noteq> Inl (RuntimeError m)"
proof
  assume "fst (launch_threads e s) = Inl (RuntimeError m)"
  from launch_threads_errors [OF this] show False by simp
qed

text \<open>
  C7. In a process whose initialization has succeeded (now or earlier),
  \<open>get_num_threads()\<close> returns the count the backend reports, as it is, when that count
  is positive, and otherwise raises the \<open>RuntimeError\<close> whose message carries the thread
  id and the reported count. A \<open>RuntimeError\<close> comes out of \<open>get_num_threads()\<close> in no
  other case: only when initialization has succeeded and the reported count is not positive.
\<close>

theorem get_num_threads_reports:
  assumes "bound_when_ready s"
  shows "(fst (launch_threads e s) = Inr () \<longrightarrow>
            get_num_threads e s =
              (if sint (backend_num_threads e) \<le> 0 then
                 Inl (RuntimeError
                        (''Invalid number of threads. '' @
                         ''This likely indicates a bug in Numba. '' @
                         ''(thread_id='' @ str_int (sint (backend_thread_id e)) @
                         '', num_threads='' @ str_int (sint (backend_num_threads e)) @ '')''))
               else Inr (sint (backend_num_threads e)),
               snd (launch_threads e s))) \<and>
         ((\<exists>m. fst (get_num_threads e s) = Inl (RuntimeError m)) \<longleftrightarrow>
            fst (launch_threads e s) = Inr () \<and> sint (backend_num_threads e) \<le> 0)"
proof -
  obtain r s' where l: "launch_threads e s = (r, s')" by (cases "launch_threads e s")
  show ?thesis
  proof (cases r)
    case (Inl err)
    with launch_threads_not_runtime_error [of e s] l show ?thesis
      by (simp add: get_num_threads_def)
  next
    case (Inr u)
    with l launch_threads_bound [OF assms, of e] obtain b where
      "num_threads_funcs s' = Some b" by auto
    with l Inr show ?thesis
      by (simp add: get_num_threads_def Let_def)
  qed
qed

lemma launch_bad_count: "launch_threads env_bad_count ready_state = (Inr (), ready_state)"
  by (simp add: launch_threads_def ready_state_def)

theorem get_num_threads_reports_witness:
  "bound_when_ready ready_state \<and>
   fst (launch_threads env_example ready_state) = Inr () \<and>
   get_num_threads env_example ready_state = (Inr 4, ready_state) \<and>
   fst (launch_threads env_bad_count ready_state) = Inr () \<and>
   get_num_threads env_bad_count ready_state =
     (Inl (RuntimeError
        (''Invalid number of threads. This likely indicates a bug in Numba. '' @
         ''(thread_id=2, num_threads=-3)'')), ready_state)"
proof -
  have b: "bound_when_ready ready_state"
    by (simp add: bound_when_ready_def ready_state_def)
  have l: "launch_threads env_example ready_state = (Inr (), ready_state)"
    by (simp add: launch_threads_def ready_state_def)
  have v: "sint (backend_num_threads env_example) = 4"
    "sint (backend_num_threads env_bad_count) = - 3"
    "sint (backend_thread_id env_bad_count) = 2"
    by (simp_all add: env_example_def env_bad_count_def)
  have d: "str_int 2 = ''2''" "str_int (- 3) = ''-3''"
    by (simp_all add: str_int_def str_nat.simps)
  from get_num_threads_reports [OF b, of env_example] get_num_threads_reports [OF b, of env_bad_count]
  show ?thesis
    by (simp add: b l launch_bad_count v d)
qed

text \<open>
  C6, as the claim states it, fails on the first call of the process: \<open>set_num_threads(0)\<close>
  is rejected with the range error, but the initialization it has run before the check has
  set the backend's active thread count to \<open>NUMBA_NUM_THREADS\<close>.
\<close>

theorem set_num_threads_rejected_first_call_writes:
  "fst (set_num_threads env_example initial_state (PyInt 0)) =
     Inl (ValueError ''The number of threads must be between 1 and 4'') \<and>
   events initial_state = [] \<and>
   Set_num_threads workqueue 4 \<in>
     set (events (snd (set_num_threads env_example initial_state (PyInt 0))))"
  by (simp add: set_num_threads_def launch_example snt_check_def str_int_4)
     (simp add: env_example_def ready_state_def initial_state_def str_int_4)

text \<open>
  C6, amended. Where \<open>NUMBA_NUM_THREADS\<close> is a valid thread count and the initialization
  that \<open>set_num_threads\<close> starts with succeeds, \<open>set_num_threads(n)\<close> rejects every n
  below 1 or above \<open>NUMBA_NUM_THREADS\<close>, in particular 0 and \<open>NUMBA_NUM_THREADS + 1\<close>,
  with the range error that names the bounds, and accepts every n from 1 to
  \<open>NUMBA_NUM_THREADS\<close>, in particular both ends, passing it to the backend. A rejected
  call never passes n to the backend: it leaves the state as \<open>_launch_threads()\<close> alone
  leaves it, which is the state before the call when the process was initialized already.
\<close>

theorem set_num_threads_validates:
  assumes "bound_when_ready s" and "get_thread_count e = Inr N"
    and "fst (launch_threads e s) = Inr ()"
  shows "set_num_threads e s (PyInt 0) =
           (Inl (ValueError (''The number of threads must be between 1 and '' @ str_int N)),
            snd (launch_threads e s)) \<and>
         set_num_threads e s (PyInt (N + 1)) =
           (Inl (ValueError (''The number of threads must be between 1 and '' @ str_int N)),
            snd (launch_threads e s)) \<and>
         (n < 1 \<or> N < n \<longrightarrow>
            set_num_threads e s (PyInt n) =
              (Inl (ValueError (''The number of threads must be between 1 and '' @ str_int N)),
               snd (launch_threads e s))) \<and>
         (\<exists>l. num_threads_funcs (snd (launch_threads e s)) = Some l \<and>
              set_num_threads e s (PyInt 1) =
                (Inr (), add_events (snd (launch_threads e s)) [Set_num_threads l 1]) \<and>
              set_num_threads e s (PyInt N) =
                (Inr (), add_events (snd (launch_threads e s))
                           [Set_num_threads l (word_of_int N)]) \<and>
              (1 \<le> n \<and> n \<le> N \<longrightarrow>
                 set_num_threads e s (PyInt n) =
                   (Inr (), add_events (snd (launch_threads e s))
                              [Set_num_threads l (word_of_int n)]))) \<and>
         (is_initialized s \<longrightarrow> snd (launch_threads e s) = s)"
proof -
  obtain s' where l: "launch_threads e s = (Inr (), s')"
    using assms(3) by (cases "launch_threads e s") simp
  from assms(2) have N: "NUMBA_NUM_THREADS e = N" "1 \<le> N"
    by (simp_all add: get_thread_count_def Let_def split: if_splits)
  from launch_threads_bound [OF assms(1,3)] l obtain b where
    b: "num_threads_funcs s' = Some b" by auto
  have rej: "set_num_threads e s (PyInt k) =
               (Inl (ValueError (''The number of threads must be between 1 and '' @ str_int N)),
                s')" if "k < 1 \<or> N < k" for k
    using that by (auto simp: set_num_threads_def l snt_check_def N)
  have acc: "set_num_threads e s (PyInt k) =
               (Inr (), add_events s' [Set_num_threads b (word_of_int k)])"
    if "1 \<le> k" "k \<le> N" for k
    using that by (simp add: set_num_threads_def l snt_check_def N b)
  from N acc [of 1] acc [of N] have ends:
    "set_num_threads e s (PyInt 1) = (Inr (), add_events s' [Set_num_threads b 1])"
    "set_num_threads e s (PyInt N) =
       (Inr (), add_events s' [Set_num_threads b (word_of_int N)])"
    by simp_all
  have same: "s' = s" if "is_initialized s"
    using that l by (simp add: launch_threads_ready)
  from rej [of 0] rej [of "N + 1"] rej [of n] acc [of n] ends b same show ?thesis
    by (simp add: l)
qed

theorem set_num_threads_validates_witness:
  "bound_when_ready ready_state \<and> get_thread_count env_example = Inr 4 \<and>
   fst (launch_threads env_example ready_state) = Inr () \<and>
   set_num_threads env_example ready_state (PyInt 0) =
     (Inl (ValueError ''The number of threads must be between 1 and 4''), ready_state) \<and>
   set_num_threads env_example ready_state (PyInt 5) =
     (Inl (ValueError ''The number of threads must be between 1 and 4''), ready_state) \<and>
   set_num_threads env_example ready_state (PyInt 1) =
     (Inr (), add_events ready_state [Set_num_threads workqueue 1]) \<and>
   set_num_threads env_example ready_state (PyInt 4) =
     (Inr (), add_events ready_state [Set_num_threads workqueue 4])"
proof -
  have b: "bound_when_ready ready_state"
    by (simp add: bound_when_ready_def ready_state_def)
  have g: "get_thread_count env_example = Inr 4"
    by (simp add: get_thread_count_def env_example_def)
  have l: "launch_threads env_example ready_state = (Inr (), ready_state)"
    by (simp add: launch_threads_def ready_state_def)
  then have f: "fst (launch_threads env_example ready_state) = Inr ()" by simp
  have w: "num_threads_funcs ready_state = Some workqueue" by (simp add: ready_state_def)
  from set_num_threads_validates [OF b g f, of 0] show ?thesis
    by (simp add: b g l w str_int_4)
qed

text \<open>
  C8. In an initialized process \<open>set_parallel_chunksize(-1)\<close> is not rejected: no
  statement of the function compares n with 0, the call returns normally, and the backend's
  chunk size has been set, to the \<open>c_uint\<close> 4294967295. The chunk size 0 is accepted and
  passed on as 0. The sibling setter \<open>set_num_threads\<close> checks its range: it rejects -1
  and leaves the state as it was.
\<close>

theorem set_parallel_chunksize_negative_accepted:
  "is_initialized ready_state \<and>
   set_parallel_chunksize env_example ready_state (PyInt (- 1)) =
     (Inr (), add_events ready_state [Set_parallel_chunksize workqueue 4294967295]) \<and>
   add_events ready_state [Set_parallel_chunksize workqueue 4294967295] \<noteq> ready_state \<and>
   set_parallel_chunksize env_example ready_state (PyInt 0) =
     (Inr (), add_events ready_state [Set_parallel_chunksize workqueue 0]) \<and>
   set_num_threads env_example ready_state (PyInt (- 1)) =
     (Inl (ValueError ''The number of threads must be between 1 and 4''), ready_state)"
  by (simp add: set_parallel_chunksize_def set_num_threads_def snt_check_def launch_threads_def
        ready_state_def add_events_def env_example_def str_int_4)

end
